theory Spec2Isabelle
  imports Complex_Main
begin

section \<open>Default tables of a segmentation: the data model\<close>

text \<open>
  The development follows \<^verbatim>\<open>mobie/tables/default_table.py\<close>. Numbers are the floats
  of a numpy array, taken here as exact rationals extended by one value for NaN
  (\<open>None\<close>); rounding, infinities and signed zeros are not part of the model.
  A path is the list of its components, so that \<^verbatim>\<open>os.path.join(p, "x")\<close> is
  \<open>p @ [''x'']\<close>, \<^verbatim>\<open>os.path.split(p)[0]\<close> is \<open>butlast p\<close> and the empty list is
  the empty string.
\<close>

type_synonym val = "rat option"
type_synonym path = "string list"

datatype error =
    AssertionError
  | IndexError
  | ValueError
  | KeyError
  | AttributeError
  | RuntimeError string
  | NotImplementedError string
  | FileNotFoundError
  | FileExistsError
  | NotADirectoryError
  | IsADirectoryError

text \<open>A two-dimensional numpy array: its second extent and its rows.\<close>

record ndarray =
  ncols :: nat
  rws :: "val list list"

definition wf_array :: "ndarray \<Rightarrow> bool" where
  "wf_array a = list_all (\<lambda>r. length r = ncols a) (rws a)"

text \<open>
  The arrays that live while \<^verbatim>\<open>_n5_to_pandas\<close> runs are the local \<^verbatim>\<open>attributes\<close>
  and the caller's \<^verbatim>\<open>anchors\<close>. A basic slice of a numpy array is a view: it shares
  the memory of its base. A view is therefore the address of its base and the base
  columns it shows, in the order it shows them.
\<close>

datatype addr = ATTRIBUTES | ANCHORS

type_synonym store = "addr \<Rightarrow> ndarray"

record view =
  base :: addr
  cols :: "nat list"

definition whole :: "store \<Rightarrow> addr \<Rightarrow> view" where
  "whole s a = \<lparr>base = a, cols = [0..<ncols (s a)]\<rparr>"

text \<open>\<^verbatim>\<open>v[:, a:b]\<close> for \<open>0 \<le> a \<le> b\<close>: slices clip at the extent.\<close>

definition slice_cols :: "nat \<Rightarrow> nat \<Rightarrow> view \<Rightarrow> view" where
  "slice_cols a b v = v\<lparr>cols := take (b - a) (drop a (cols v))\<rparr>"

text \<open>\<^verbatim>\<open>v[:, ::-1]\<close>: the same memory, columns in reverse.\<close>

definition rev_cols :: "view \<Rightarrow> view" where
  "rev_cols v = v\<lparr>cols := rev (cols v)\<rparr>"

definition read_view :: "store \<Rightarrow> view \<Rightarrow> val list list" where
  "read_view s v = map (\<lambda>r. map (\<lambda>c. r ! c) (cols v)) (rws (s (base v)))"

definition vmul :: "val \<Rightarrow> rat \<Rightarrow> val" where
  "vmul v r = map_option (\<lambda>x. x * r) v"

text \<open>\<^verbatim>\<open>v[:, d] *= r\<close>, for \<open>d\<close> within the view: written through to the base.\<close>

definition imul_col :: "view \<Rightarrow> nat \<Rightarrow> rat \<Rightarrow> store \<Rightarrow> store" where
  "imul_col v d r s =
     s(base v := (s (base v))\<lparr>rws := map (\<lambda>row. row[cols v ! d := vmul (row ! (cols v ! d)) r])
                                         (rws (s (base v)))\<rparr>)"

section \<open>The coordinate translator\<close>

text \<open>
  \<^verbatim>\<open>for d in range(3): coords[:, d] *= res_in_micron[d]\<close>. Both subscripts raise
  IndexError out of range; what was scaled before stays scaled.
\<close>

fun scale_axes :: "rat list \<Rightarrow> view \<Rightarrow> nat list \<Rightarrow> store \<Rightarrow> error option \<times> store" where
  "scale_axes res v [] s = (None, s)"
| "scale_axes res v (d # ds) s =
     (if length (cols v) \<le> d then (Some IndexError, s)
      else if length res \<le> d then (Some IndexError, s)
      else scale_axes res v ds (imul_col v d (res ! d) s))"

definition translate_coordinate_tuple ::
  "rat list \<Rightarrow> view \<Rightarrow> store \<Rightarrow> (error + view) \<times> store" where
  "translate_coordinate_tuple res_in_micron coords s =
     (let coords' = rev_cols coords in
      case scale_axes res_in_micron coords' [0, 1, 2] s of
        (Some e, s') \<Rightarrow> (Inl e, s')
      | (None, s') \<Rightarrow> (Inr coords', s'))"

section \<open>Segmentations as the libraries report them\<close>

text \<open>
  The segmentation is seen through the libraries that read it: its number of
  dimensions, what \<^verbatim>\<open>regionprops\<close> reports (per region a label, a bounding box
  \<open>(min_row, min_col, max_row, max_col)\<close> and an area) and the list of eccentricity
  centers, indexed by label.
\<close>

record regionprop =
  label :: nat
  bbox :: "nat \<times> nat \<times> nat \<times> nat"
  area :: nat

record segmentation =
  ndim :: nat
  props :: "regionprop list"
  centers :: "(rat \<times> rat) list"

section \<open>The distributed morphology workflow\<close>

record task =
  t_tmp_folder :: path
  t_max_jobs :: int
  t_target :: string
  t_config_dir :: path
  t_input_path :: path
  t_input_key :: string
  t_output_path :: path
  t_output_key :: string
  t_prefix :: string
  t_max_jobs_merge :: int

text \<open>
  The world outside the process: the folders that received a global configuration, the
  tasks handed to the scheduler, the segmentations and the attribute arrays that
  \<^verbatim>\<open>open_file(path)[key]\<close> finds, and the file system that receives the table. The
  workflow engine is a parameter: given the task and the attribute arrays it answers
  success or failure and leaves attribute arrays behind; it does not touch the file
  system that receives the table.
\<close>

record world =
  configs :: "path list"
  runs :: "task list"
  segs :: "path \<times> string \<Rightarrow> segmentation option"
  n5 :: "path \<times> string \<Rightarrow> ndarray option"
  dirs :: "path set"
  files :: "path \<Rightarrow> string option"

type_synonym arrays = "path \<times> string \<Rightarrow> ndarray option"

type_synonym workflow = "task \<Rightarrow> arrays \<Rightarrow> bool \<times> arrays"

definition luigi_build :: "workflow \<Rightarrow> task \<Rightarrow> world \<Rightarrow> bool \<times> world" where
  "luigi_build engine t w =
     (case engine t (n5 w) of (ret, st) \<Rightarrow> (ret, w\<lparr>runs := runs w @ [t], n5 := st\<rparr>))"

definition morphology_task :: "path \<Rightarrow> string \<Rightarrow> path \<Rightarrow> string \<Rightarrow> int \<Rightarrow> task" where
  "morphology_task input_path input_key tmp_folder target max_jobs =
     \<lparr>t_tmp_folder = tmp_folder, t_max_jobs = max_jobs, t_target = target,
      t_config_dir = tmp_folder @ [''configs''],
      t_input_path = input_path, t_input_key = input_key,
      t_output_path = tmp_folder @ [''data.n5''], t_output_key = ''attributes'',
      t_prefix = ''attributes'', t_max_jobs_merge = min 32 max_jobs\<rparr>"

definition table_impl ::
  "workflow \<Rightarrow> path \<Rightarrow> string \<Rightarrow> path \<Rightarrow> string \<Rightarrow> int \<Rightarrow> world \<Rightarrow> (error + path \<times> string) \<times> world" where
  "table_impl engine input_path input_key tmp_folder target max_jobs w =
     (let out_path = tmp_folder @ [''data.n5''];
          out_key = ''attributes'';
          t = morphology_task input_path input_key tmp_folder target max_jobs
      in case luigi_build engine t w of
           (ret, w') \<Rightarrow>
             if \<not> ret then (Inl (RuntimeError ''Attribute workflow failed''), w')
             else (Inr (out_path, out_key), w'))"

section \<open>Data frames\<close>

text \<open>
  A data frame has its column names and its rows; a row carries its index label, which
  pandas keeps when rows are selected, and its cells.
\<close>

record dataframe =
  df_columns :: "string list"
  df_rows :: "(nat \<times> val list) list"

text \<open>
  \<^verbatim>\<open>pd.DataFrame(data, columns=col_names)\<close>: the second extent of the data must be the
  number of names; the index is \<open>0, 1, ...\<close>.
\<close>

definition DataFrame :: "ndarray \<Rightarrow> string list \<Rightarrow> error + dataframe" where
  "DataFrame data col_names =
     (if ncols data \<noteq> length col_names then Inl ValueError
      else Inr \<lparr>df_columns = col_names, df_rows = enumerate 0 (rws data)\<rparr>)"

fun index_of :: "'a \<Rightarrow> 'a list \<Rightarrow> nat option" where
  "index_of x [] = None"
| "index_of x (y # ys) = (if x = y then Some 0 else map_option Suc (index_of x ys))"

text \<open>
  \<^verbatim>\<open>table[table.n_pixels != 0]\<close>: attribute access to a column that is not there raises
  AttributeError; NaN is different from 0, so a row with a NaN count stays.
\<close>

definition remove_empty_columns :: "dataframe \<Rightarrow> error + dataframe" where
  "remove_empty_columns table =
     (case index_of ''n_pixels'' (df_columns table) of
        None \<Rightarrow> Inl AttributeError
      | Some i \<Rightarrow> Inr (table\<lparr>df_rows := filter (\<lambda>(k, r). r ! i \<noteq> Some 0) (df_rows table)\<rparr>))"

text \<open>
  Modelled from the spec: \<^verbatim>\<open>remove_background_label_row\<close> of \<^verbatim>\<open>mobie/tables/utils.py\<close>,
  which is not part of the sources at hand. The specification says of it: drop the row
  corresponding to the background label (label 0) if present.
\<close>

definition remove_background_label_row :: "dataframe \<Rightarrow> error + dataframe" where
  "remove_background_label_row table =
     (case index_of ''label_id'' (df_columns table) of
        None \<Rightarrow> Inl AttributeError
      | Some i \<Rightarrow> Inr (table\<lparr>df_rows := filter (\<lambda>(k, r). r ! i \<noteq> Some 0) (df_rows table)\<rparr>))"

section \<open>The 2D extractor\<close>

definition bbox_list :: "regionprop \<Rightarrow> rat list" where
  "bbox_list p = (case bbox p of (a, b, c, d) \<Rightarrow> [of_nat a, of_nat b, of_nat c, of_nat d])"

definition scaled :: "rat list \<Rightarrow> rat list \<Rightarrow> val list" where
  "scaled xs resolution = map (\<lambda>(x, res). Some (x * res)) (zip xs resolution)"

definition table_row_2d :: "(rat \<times> rat) \<Rightarrow> rat list \<Rightarrow> regionprop \<Rightarrow> val list" where
  "table_row_2d ce resolution p =
     [Some (of_nat (label p))]
     @ scaled [fst ce, snd ce] resolution
     @ scaled (take 2 (bbox_list p)) resolution
     @ scaled (drop 2 (bbox_list p)) resolution
     @ [Some (of_nat (area p))]"

text \<open>The list comprehension; \<^verbatim>\<open>centers[p.label]\<close> raises IndexError out of range.\<close>

fun table_rows_2d :: "(rat \<times> rat) list \<Rightarrow> rat list \<Rightarrow> regionprop list \<Rightarrow> error + val list list" where
  "table_rows_2d cs resolution [] = Inr []"
| "table_rows_2d cs resolution (p # ps) =
     (if length cs \<le> label p then Inl IndexError
      else case table_rows_2d cs resolution ps of
             Inl e \<Rightarrow> Inl e
           | Inr rs \<Rightarrow> Inr (table_row_2d (cs ! label p) resolution p # rs))"

definition col_names_2d :: "string list" where
  "col_names_2d = [''label_id'', ''anchor_y'', ''anchor_x'',
                   ''bb_min_y'', ''bb_min_x'', ''bb_max_y'', ''bb_max_x'', ''n_pixels'']"

text \<open>
  \<^verbatim>\<open>np.array\<close> of an empty list has shape \<open>(0,)\<close>, so that \<^verbatim>\<open>tab.shape[1]\<close> raises
  IndexError when there is no region.
\<close>

definition compute_table_2d :: "segmentation \<Rightarrow> rat list \<Rightarrow> error + dataframe" where
  "compute_table_2d seg resolution =
     (if \<not> (length resolution = ndim seg \<and> ndim seg = 2) then Inl AssertionError
      else case table_rows_2d (centers seg) resolution (props seg) of
             Inl e \<Rightarrow> Inl e
           | Inr [] \<Rightarrow> Inl IndexError
           | Inr (r # rs) \<Rightarrow>
               if length r \<noteq> length col_names_2d then Inl AssertionError
               else DataFrame \<lparr>ncols = length r, rws = r # rs\<rparr> col_names_2d)"

section \<open>The 3D extractor: from the attribute array to the table\<close>

definition col_names_3d :: "string list" where
  "col_names_3d = [''label_id'',
                   ''anchor_x'', ''anchor_y'', ''anchor_z'',
                   ''bb_min_x'', ''bb_min_y'', ''bb_min_z'',
                   ''bb_max_x'', ''bb_max_y'', ''bb_max_z'',
                   ''n_pixels'']"

definition no_array :: ndarray where
  "no_array = \<lparr>ncols = 0, rws = []\<rparr>"

text \<open>
  \<^verbatim>\<open>np.isclose(a, 0.)\<close> with the default tolerances is \<open>\<bar>a\<bar> \<le> 1e-8\<close>; it is false of
  NaN.
\<close>

definition isclose0 :: "val \<Rightarrow> bool" where
  "isclose0 v = (case v of None \<Rightarrow> False | Some x \<Rightarrow> \<bar>x\<bar> \<le> 1 / 100000000)"

definition put_cols :: "nat list \<Rightarrow> val list \<Rightarrow> val list \<Rightarrow> val list" where
  "put_cols cs vs r = foldl (\<lambda>r (c, v). r[c := v]) r (zip cs vs)"

text \<open>
  \<^verbatim>\<open>a[mask] = c[mask]\<close>: the selected rows of \<open>c\<close> are copied out and written into the
  selected rows of \<open>a\<close>. The widths must agree, except that a single column is
  broadcast; otherwise numpy raises ValueError.
\<close>

definition assign_rows :: "bool list \<Rightarrow> view \<Rightarrow> view \<Rightarrow> store \<Rightarrow> error + store" where
  "assign_rows msk a c s =
     (let src = read_view s c;
          wa = length (cols a);
          wc = length (cols c);
          put = (\<lambda>(m, r, v). if m then put_cols (cols a) (if wc = wa then v else replicate wa (v ! 0)) r
                              else r)
      in if wc = wa \<or> wc = 1
         then Inr (s(base a := (s (base a))\<lparr>rws := map put (zip msk (zip (rws (s (base a))) src))\<rparr>))
         else Inl ValueError)"

text \<open>
  The branch for supplied anchors: two assertions, the merge with the centers of mass,
  the translation.
\<close>

definition merge_anchors :: "rat list \<Rightarrow> view \<Rightarrow> store \<Rightarrow> (error + view) \<times> store" where
  "merge_anchors res_in_micron com s =
     (let anchors = whole s ANCHORS in
      if length (rws (s ANCHORS)) \<noteq> length (rws (s (base com))) then (Inl AssertionError, s)
      else if ncols (s ANCHORS) \<noteq> 3 then (Inl AssertionError, s)
      else let invalid_anchors = map (list_all isclose0) (read_view s anchors) in
           case assign_rows invalid_anchors anchors com s of
             Inl e \<Rightarrow> (Inl e, s)
           | Inr s' \<Rightarrow> translate_coordinate_tuple res_in_micron anchors s')"

text \<open>
  \<^verbatim>\<open>np.concatenate(parts, axis=1)\<close> copies the parts, read at this moment, side by
  side; they must have the same number of rows.
\<close>

definition concatenate :: "store \<Rightarrow> view list \<Rightarrow> error + ndarray" where
  "concatenate s vs =
     (let parts = map (read_view s) vs;
          n = (case parts of [] \<Rightarrow> 0 | p # _ \<Rightarrow> length p)
      in if vs = [] \<or> \<not> list_all (\<lambda>p. length p = n) parts then Inl ValueError
         else Inr \<lparr>ncols = sum_list (map (\<lambda>v. length (cols v)) vs),
                   rws = map (\<lambda>i. concat (map (\<lambda>p. p ! i) parts)) [0..<n]\<rparr>)"

definition n5_to_pandas ::
  "path \<Rightarrow> string \<Rightarrow> rat list \<Rightarrow> ndarray option \<Rightarrow> world \<Rightarrow> (error + dataframe) \<times> store" where
  "n5_to_pandas input_path input_key resolution anchors w =
     (let s0 = (case anchors of None \<Rightarrow> (\<lambda>_. no_array) | Some a \<Rightarrow> (\<lambda>_. no_array)(ANCHORS := a)) in
      case n5 w (input_path, input_key) of
        None \<Rightarrow> (Inl KeyError, s0)
      | Some loaded \<Rightarrow>
         (let s1 = s0(ATTRIBUTES := loaded);
              attributes = whole s1 ATTRIBUTES;
              label_ids = slice_cols 0 1 attributes;
              res_in_micron = rev resolution;
              com = slice_cols 2 5 attributes
          in case (case anchors of
                     None \<Rightarrow> translate_coordinate_tuple res_in_micron com s1
                   | Some _ \<Rightarrow> merge_anchors res_in_micron com s1) of
               (Inl e, s2) \<Rightarrow> (Inl e, s2)
             | (Inr anchors', s2) \<Rightarrow>
                 (case translate_coordinate_tuple res_in_micron (slice_cols 5 8 attributes) s2 of
                    (Inl e, s3) \<Rightarrow> (Inl e, s3)
                  | (Inr minc, s3) \<Rightarrow>
                      (case translate_coordinate_tuple res_in_micron (slice_cols 8 11 attributes) s3 of
                         (Inl e, s4) \<Rightarrow> (Inl e, s4)
                       | (Inr maxc, s4) \<Rightarrow>
                           (case concatenate s4 [label_ids, anchors', minc, maxc,
                                                 slice_cols 1 2 attributes] of
                              Inl e \<Rightarrow> (Inl e, s4)
                            | Inr data \<Rightarrow>
                                (case DataFrame data col_names_3d of
                                   Inl e \<Rightarrow> (Inl e, s4)
                                 | Inr df \<Rightarrow> (remove_background_label_row df, s4)))))))"

text \<open>
  Modelled from the spec: \<^verbatim>\<open>write_global_config\<close> of \<^verbatim>\<open>mobie/utils.py\<close>, which is not
  part of the sources at hand. It prepares the configuration of the workflow in the
  folder it is given, inside the temporary folder that the invocation owns.
\<close>

definition write_global_config :: "path \<Rightarrow> world \<Rightarrow> world" where
  "write_global_config config_folder w = w\<lparr>configs := configs w @ [config_folder]\<rparr>"

definition compute_table_3d ::
  "workflow \<Rightarrow> path \<Rightarrow> string \<Rightarrow> rat list \<Rightarrow> bool \<Rightarrow> path \<Rightarrow> string \<Rightarrow> int \<Rightarrow> world
     \<Rightarrow> (error + dataframe) \<times> world" where
  "compute_table_3d engine seg_path seg_key resolution correct_anchors tmp_folder target max_jobs w =
     (let w1 = write_global_config (tmp_folder @ [''configs'']) w in
      case table_impl engine seg_path seg_key tmp_folder target max_jobs w1 of
        (Inl e, w2) \<Rightarrow> (Inl e, w2)
      | (Inr (tmp_path, tmp_key), w2) \<Rightarrow>
          if correct_anchors
          then (Inl (NotImplementedError ''Anchor correction is not implemented yet''), w2)
          else (fst (n5_to_pandas tmp_path tmp_key resolution None w2), w2))"

section \<open>Writing the table\<close>

text \<open>
  \<^verbatim>\<open>os.makedirs(name, exist_ok=True)\<close> creates \<open>name\<close> and the ancestors it lacks, from
  the outermost on. The empty name raises FileNotFoundError; a file in the place of an
  ancestor raises NotADirectoryError, a file in the place of \<open>name\<close> FileExistsError.
\<close>

fun mkdirs :: "path list \<Rightarrow> world \<Rightarrow> error option \<times> world" where
  "mkdirs [] w = (None, w)"
| "mkdirs (q # qs) w =
     (if files w q \<noteq> None then (Some (if qs = [] then FileExistsError else NotADirectoryError), w)
      else mkdirs qs (w\<lparr>dirs := insert q (dirs w)\<rparr>))"

definition ancestors_and_self :: "path \<Rightarrow> path list" where
  "ancestors_and_self name = map (\<lambda>n. take n name) [1..<Suc (length name)]"

definition os_makedirs :: "path \<Rightarrow> world \<Rightarrow> error option \<times> world" where
  "os_makedirs name w =
     (if name = [] then (Some FileNotFoundError, w) else mkdirs (ancestors_and_self name) w)"

fun join :: "string \<Rightarrow> string list \<Rightarrow> string" where
  "join sep [] = []"
| "join sep [x] = x"
| "join sep (x # y # ys) = x @ sep @ join sep (y # ys)"

text \<open>
  \<^verbatim>\<open>table.to_csv(path, sep=sep, index=index, na_rep=na_rep)\<close>: a header line, then a
  line per row, each ended by a newline; with \<open>index\<close> every line starts with the
  cell of the index. How pandas prints a number is the parameter \<open>fmt\<close>. The file
  is opened for writing: its folder has to exist, and it must not be a folder itself.
\<close>

definition to_csv ::
  "dataframe \<Rightarrow> path \<Rightarrow> string \<Rightarrow> bool \<Rightarrow> string \<Rightarrow> (rat \<Rightarrow> string) \<Rightarrow> world
     \<Rightarrow> error option \<times> world" where
  "to_csv table p sep index na_rep fmt w =
     (let cell = (\<lambda>v. case v of None \<Rightarrow> na_rep | Some x \<Rightarrow> fmt x);
          line = (\<lambda>cs. join sep cs @ [CHR 0x0A]);
          header = line ((if index then [[]] else []) @ df_columns table);
          body = map (\<lambda>(k, r). line ((if index then [fmt (of_nat k)] else []) @ map cell r))
                     (df_rows table)
      in if p = [] \<or> (butlast p \<noteq> [] \<and> butlast p \<notin> dirs w) then (Some FileNotFoundError, w)
         else if p \<in> dirs w then (Some IsADirectoryError, w)
         else (None, w\<lparr>files := (files w)(p \<mapsto> concat (header # body))\<rparr>))"

section \<open>The dispatcher\<close>

definition compute_default_table ::
  "workflow \<Rightarrow> (rat \<Rightarrow> string) \<Rightarrow> path \<Rightarrow> string \<Rightarrow> path \<Rightarrow> rat list \<Rightarrow> path \<Rightarrow> string \<Rightarrow> int
     \<Rightarrow> bool \<Rightarrow> world \<Rightarrow> error option \<times> world" where
  "compute_default_table engine fmt seg_path seg_key table_path resolution tmp_folder target
       max_jobs correct_anchors w =
     (case segs w (seg_path, seg_key) of
        None \<Rightarrow> (Some KeyError, w)
      | Some seg \<Rightarrow>
          (case (if ndim seg = 2 then (compute_table_2d seg resolution, w)
                 else compute_table_3d engine seg_path seg_key resolution correct_anchors
                        tmp_folder target max_jobs w) of
             (Inl e, w1) \<Rightarrow> (Some e, w1)
           | (Inr table, w1) \<Rightarrow>
               (case remove_empty_columns table of
                  Inl e \<Rightarrow> (Some e, w1)
                | Inr table' \<Rightarrow>
                    let table_folder = butlast table_path in
                    (case os_makedirs table_folder w1 of
                       (Some e, w2) \<Rightarrow> (Some e, w2)
                     | (None, w2) \<Rightarrow>
                         to_csv table' table_path [CHR 0x09] False ''nan'' fmt w2))))"

section \<open>What the translator computes, stated without the store\<close>

text \<open>
  The effect of the three in-place multiplications on one row of the base array, for a
  view that shows the columns \<open>cs\<close>: the reversed view has \<open>cs ! 2\<close> first.
\<close>

definition scale3 :: "nat list \<Rightarrow> rat list \<Rightarrow> val list \<Rightarrow> val list" where
  "scale3 cs res r =
     r[cs ! 2 := vmul (r ! (cs ! 2)) (res ! 0),
       cs ! 1 := vmul (r ! (cs ! 1)) (res ! 1),
       cs ! 0 := vmul (r ! (cs ! 0)) (res ! 2)]"

text \<open>One coordinate tuple in reverse order, each axis scaled by its entry of \<open>res_in_micron\<close>.\<close>

definition translated :: "rat list \<Rightarrow> val list \<Rightarrow> val list" where
  "translated res_in_micron r = map (\<lambda>(x, res). vmul x res) (zip (rev r) res_in_micron)"

text \<open>
  The way back, in the words of the specification: reverse the axis order of the result
  and divide each axis by its resolution value.
\<close>

definition vdiv :: "val \<Rightarrow> rat \<Rightarrow> val" where
  "vdiv v r = map_option (\<lambda>x. x / r) v"

definition reverse_and_divide :: "rat list \<Rightarrow> val list list \<Rightarrow> val list list" where
  "reverse_and_divide resolution batch =
     map (\<lambda>r. map (\<lambda>(x, res). vdiv x res) (zip (rev r) resolution)) batch"

text \<open>
  One row of the 3D table, from a row \<open>r\<close> of the attribute array and the anchor
  chosen for it: label, anchor, lower and upper corner of the bounding box, each
  translated, and the number of pixels.
\<close>

definition table_row_3d :: "rat list \<Rightarrow> val list \<Rightarrow> val list \<Rightarrow> val list" where
  "table_row_3d res_in_micron anchor r =
     [r ! 0] @ translated res_in_micron anchor
     @ translated res_in_micron (take 3 (drop 5 r))
     @ translated res_in_micron (take 3 (drop 8 r)) @ [r ! 1]"

definition rows_3d :: "rat list \<Rightarrow> ndarray \<Rightarrow> val list list" where
  "rows_3d resolution attrs =
     map (\<lambda>r. table_row_3d (rev resolution) (take 3 (drop 2 r)) r) (rws attrs)"

text \<open>
  The anchor after the merge: the center of mass where every supplied coordinate is
  close to zero, the supplied anchor otherwise.
\<close>

definition merged_anchor :: "val list \<Rightarrow> val list \<Rightarrow> val list" where
  "merged_anchor a r = (if list_all isclose0 a then take 3 (drop 2 r) else a)"

definition rows_3d_anchored :: "rat list \<Rightarrow> ndarray \<Rightarrow> ndarray \<Rightarrow> val list list" where
  "rows_3d_anchored resolution anc attrs =
     map (\<lambda>(a, r). table_row_3d (rev resolution) (merged_anchor a r) r) (zip (rws anc) (rws attrs))"

text \<open>The cells of a named column, from the first row to the last.\<close>

definition column :: "string \<Rightarrow> dataframe \<Rightarrow> val list" where
  "column name t =
     (case index_of name (df_columns t) of
        None \<Rightarrow> []
      | Some i \<Rightarrow> map (\<lambda>(k, r). r ! i) (df_rows t))"

section \<open>Concrete inputs\<close>

text \<open>
  A raw attribute array of three labels, with the background first and an absent label
  last; a world that holds a 3D segmentation and nothing else; a workflow engine that
  succeeds and leaves that array at the output of its task, and one that fails; a 2D
  segmentation with one square object.
\<close>

definition example_attributes :: ndarray where
  "example_attributes =
     \<lparr>ncols = 11,
      rws = [[Some 0, Some 100, Some 1, Some 2, Some 3, Some 0, Some 0, Some 0, Some 9, Some 9, Some 9],
             [Some 1, Some 16, Some 1, Some 2, Some 3, Some 0, Some 1, Some 2, Some 4, Some 5, Some 6],
             [Some 2, Some 0, Some 0, Some 0, Some 0, Some 0, Some 0, Some 0, Some 0, Some 0, Some 0]]\<rparr>"

definition example_world :: world where
  "example_world =
     \<lparr>configs = [], runs = [],
      segs = (\<lambda>_. Some \<lparr>ndim = 3, props = [], centers = []\<rparr>),
      n5 = (\<lambda>_. None), dirs = {}, files = (\<lambda>_. None)\<rparr>"

definition example_engine :: workflow where
  "example_engine t st = (True, st((t_output_path t, t_output_key t) \<mapsto> example_attributes))"

definition failing_engine :: workflow where
  "failing_engine t st = (False, st)"

definition example_seg_2d :: segmentation where
  "example_seg_2d =
     \<lparr>ndim = 2, props = [\<lparr>label = 1, bbox = (0, 0, 4, 4), area = 16\<rparr>],
      centers = [(0, 0), (2, 2)]\<rparr>"

definition example_fmt :: "rat \<Rightarrow> string" where
  "example_fmt x = (if x = 16 then ''16.0'' else ''0.0'')"

definition store_3d :: store where
  "store_3d = (\<lambda>_. no_array)(ATTRIBUTES := example_attributes)"

definition com_view :: view where
  "com_view = \<lparr>base = ATTRIBUTES, cols = [2, 3, 4]\<rparr>"

definition attribute_world :: world where
  "attribute_world = example_world\<lparr>n5 := (\<lambda>_. Some example_attributes)\<rparr>"

definition example_anchors :: ndarray where
  "example_anchors =
     \<lparr>ncols = 3,
      rws = [[Some 0, Some 0, Some 0],
             [Some (1 / 1000000000), Some 0, Some 0],
             [Some 7, Some 0, Some 0]]\<rparr>"

text \<open>
  An attribute array with NaN cells, the engine that leaves it behind, and a printer for
  the numbers that occur in the examples.
\<close>

definition nan_attributes :: ndarray where
  "nan_attributes =
     \<lparr>ncols = 11,
      rws = [[Some 1, Some 16, Some 1, Some 2, Some 3, Some 0, Some 1, Some 2, Some 4, Some 5, Some 6],
             [Some 2, Some 0, Some 0, Some 0, Some 0, Some 0, Some 0, Some 0, Some 0, Some 0, Some 0],
             [Some 3, None, None, Some 2, Some 3, Some 0, Some 1, Some 2, Some 4, Some 5, Some 6]]\<rparr>"

definition nan_engine :: workflow where
  "nan_engine t st = (True, st((t_output_path t, t_output_key t) \<mapsto> nan_attributes))"

definition print_example :: "rat \<Rightarrow> string" where
  "print_example x =
     (case map_of [(0, ''0.0''), (1, ''1.0''), (3, ''3.0''), (4, ''4.0''), (5, ''5.0''),
                   (6, ''6.0''), (12, ''12.0''), (15, ''15.0''), (16, ''16.0''), (20, ''20.0'')] x of
        None \<Rightarrow> ''?''
      | Some s \<Rightarrow> s)"

text \<open>A world that holds the 2D segmentation, and a printer for its numbers.\<close>

definition example_world_2d :: world where
  "example_world_2d = example_world\<lparr>segs := (\<lambda>_. Some example_seg_2d)\<rparr>"

definition print_small :: "rat \<Rightarrow> string" where
  "print_small x =
     (case map_of [(0, ''0.0''), (1, ''1.0''), (2, ''2.0''), (4, ''4.0''), (16, ''16.0'')] x of
        None \<Rightarrow> ''?''
      | Some s \<Rightarrow> s)"

section \<open>The workflow is run once, with a capped merge parallelism\<close>

lemma table_impl_eq:
  "table_impl engine input_path input_key tmp_folder target max_jobs w =
     (if fst (engine (morphology_task input_path input_key tmp_folder target max_jobs) (n5 w))
      then Inr (tmp_folder @ [''data.n5''], ''attributes'')
      else Inl (RuntimeError ''Attribute workflow failed''),
      w\<lparr>runs := runs w @ [morphology_task input_path input_key tmp_folder target max_jobs],
        n5 := snd (engine (morphology_task input_path input_key tmp_folder target max_jobs) (n5 w))\<rparr>)"
  by (auto simp add: table_impl_def luigi_build_def Let_def split: prod.splits)

lemma compute_table_3d_world:
  "snd (compute_table_3d engine seg_path seg_key resolution correct_anchors tmp_folder target max_jobs w)
     = snd (table_impl engine seg_path seg_key tmp_folder target max_jobs
              (write_global_config (tmp_folder @ [''configs'']) w))"
  by (simp add: compute_table_3d_def Let_def split: prod.splits sum.splits)

text \<open>
  C10. Every run of the 3D path hands exactly one task to the scheduler, and the merge
  parallelism of that task is \<open>min 32 max_jobs\<close>: at most 32 whatever \<open>max_jobs\<close> is,
  and \<open>max_jobs\<close> itself when that is at most 32.
\<close>

theorem merge_parallelism_is_capped:
  "runs (snd (compute_table_3d engine seg_path seg_key resolution correct_anchors tmp_folder
                target max_jobs w))
     = runs w @ [morphology_task seg_path seg_key tmp_folder target max_jobs]
   \<and> t_max_jobs_merge (morphology_task seg_path seg_key tmp_folder target max_jobs) = min 32 max_jobs
   \<and> t_max_jobs_merge (morphology_task seg_path seg_key tmp_folder target max_jobs) \<le> 32
   \<and> (max_jobs \<le> 32 \<longrightarrow>
        t_max_jobs_merge (morphology_task seg_path seg_key tmp_folder target max_jobs) = max_jobs)"
  by (simp add: compute_table_3d_world table_impl_eq write_global_config_def morphology_task_def)

theorem merge_parallelism_is_capped_witness:
  "(8::int) \<le> 32
   \<and> t_max_jobs_merge (morphology_task [''seg.n5''] ''seg'' [''tmp''] ''local'' 8) = 8
   \<and> runs (snd (compute_table_3d example_engine [''seg.n5''] ''seg'' [2, 3, 5] False [''tmp'']
                   ''local'' 8 example_world))
        = runs example_world @ [morphology_task [''seg.n5''] ''seg'' [''tmp''] ''local'' 8]"
  using merge_parallelism_is_capped [of example_engine "[''seg.n5'']" "''seg''" "[2, 3, 5]" False
      "[''tmp'']" "''local''" 8 example_world]
  by simp

lemma compute_table_3d_eq:
  "compute_table_3d engine seg_path seg_key resolution correct_anchors tmp_folder target max_jobs w =
     (let t = morphology_task seg_path seg_key tmp_folder target max_jobs;
          w2 = w\<lparr>configs := configs w @ [tmp_folder @ [''configs'']],
                 runs := runs w @ [t], n5 := snd (engine t (n5 w))\<rparr>
      in if \<not> fst (engine t (n5 w)) then (Inl (RuntimeError ''Attribute workflow failed''), w2)
         else if correct_anchors
         then (Inl (NotImplementedError ''Anchor correction is not implemented yet''), w2)
         else (fst (n5_to_pandas (tmp_folder @ [''data.n5'']) ''attributes'' resolution None w2), w2))"
  by (simp add: compute_table_3d_def table_impl_eq write_global_config_def Let_def)

section \<open>Failures before the table is written\<close>

text \<open>
  C5. On the 3D path (the segmentation does not have two dimensions), when the workflow
  engine reports failure the run ends with the runtime error
  \<open>Attribute workflow failed\<close>, and the file system that receives the table is as it
  was: no folder made, no file written.
\<close>

theorem workflow_failure_is_fatal:
  assumes "segs w (seg_path, seg_key) = Some seg" and "ndim seg \<noteq> 2"
    and "\<not> fst (engine (morphology_task seg_path seg_key tmp_folder target max_jobs) (n5 w))"
  shows "fst (compute_default_table engine fmt seg_path seg_key table_path resolution tmp_folder
                target max_jobs correct_anchors w) = Some (RuntimeError ''Attribute workflow failed'')
       \<and> files (snd (compute_default_table engine fmt seg_path seg_key table_path resolution
                       tmp_folder target max_jobs correct_anchors w)) = files w
       \<and> dirs (snd (compute_default_table engine fmt seg_path seg_key table_path resolution
                       tmp_folder target max_jobs correct_anchors w)) = dirs w"
  using assms by (simp add: compute_default_table_def compute_table_3d_eq Let_def)

theorem workflow_failure_is_fatal_witness:
  "fst (compute_default_table failing_engine example_fmt [''seg.n5''] ''seg''
          [''out'', ''default.tsv''] [2, 3, 5] [''tmp''] ''local'' 8 False example_world)
     = Some (RuntimeError ''Attribute workflow failed'')
   \<and> files (snd (compute_default_table failing_engine example_fmt [''seg.n5''] ''seg''
          [''out'', ''default.tsv''] [2, 3, 5] [''tmp''] ''local'' 8 False example_world)) = files example_world"
  using workflow_failure_is_fatal [of example_world "[''seg.n5'']" "''seg''"
      "\<lparr>ndim = 3, props = [], centers = []\<rparr>" failing_engine "[''tmp'']" "''local''" 8 example_fmt
      "[''out'', ''default.tsv'']" "[2, 3, 5]" False]
  by (simp add: example_world_def failing_engine_def)

text \<open>
  C4, as stated, fails: the workflow runs before the flag is looked at, so with
  \<open>correct_anchors\<close> set and a failing workflow the error is the runtime error of the
  workflow and not the one for the missing anchor correction.
\<close>

theorem anchor_correction_counterexample:
  "fst (compute_default_table failing_engine example_fmt [''seg.n5''] ''seg''
          [''out'', ''default.tsv''] [2, 3, 5] [''tmp''] ''local'' 8 True example_world)
     = Some (RuntimeError ''Attribute workflow failed'')
   \<and> fst (compute_default_table failing_engine example_fmt [''seg.n5''] ''seg''
          [''out'', ''default.tsv''] [2, 3, 5] [''tmp''] ''local'' 8 True example_world)
     \<noteq> Some (NotImplementedError ''Anchor correction is not implemented yet'')"
  by (simp add: compute_default_table_def compute_table_3d_eq Let_def example_world_def failing_engine_def)

text \<open>
  C4, amended. On the 3D path with \<open>correct_anchors\<close> set the workflow is run first,
  once. If it succeeds the run ends with the error
  \<open>Anchor correction is not implemented yet\<close>, whatever the workflow left in the array
  store (the attribute array is not loaded, no anchor is computed, no table assembled);
  if it fails the run ends with the runtime error of the workflow. Either way the file
  system that receives the table is as it was.
\<close>

theorem anchor_correction_fails:
  assumes "segs w (seg_path, seg_key) = Some seg" and "ndim seg \<noteq> 2"
  shows "fst (compute_default_table engine fmt seg_path seg_key table_path resolution tmp_folder
                target max_jobs True w)
           = Some (if fst (engine (morphology_task seg_path seg_key tmp_folder target max_jobs) (n5 w))
                   then NotImplementedError ''Anchor correction is not implemented yet''
                   else RuntimeError ''Attribute workflow failed'')
       \<and> runs (snd (compute_default_table engine fmt seg_path seg_key table_path resolution
                       tmp_folder target max_jobs True w))
           = runs w @ [morphology_task seg_path seg_key tmp_folder target max_jobs]
       \<and> files (snd (compute_default_table engine fmt seg_path seg_key table_path resolution
                       tmp_folder target max_jobs True w)) = files w
       \<and> dirs (snd (compute_default_table engine fmt seg_path seg_key table_path resolution
                       tmp_folder target max_jobs True w)) = dirs w"
  using assms by (simp add: compute_default_table_def compute_table_3d_eq Let_def)

theorem anchor_correction_fails_witness:
  "fst (compute_default_table example_engine example_fmt [''seg.n5''] ''seg''
          [''out'', ''default.tsv''] [2, 3, 5] [''tmp''] ''local'' 8 True example_world)
     = Some (NotImplementedError ''Anchor correction is not implemented yet'')
   \<and> files (snd (compute_default_table example_engine example_fmt [''seg.n5''] ''seg''
          [''out'', ''default.tsv''] [2, 3, 5] [''tmp''] ''local'' 8 True example_world)) = files example_world"
  using anchor_correction_fails [of example_world "[''seg.n5'']" "''seg''"
      "\<lparr>ndim = 3, props = [], centers = []\<rparr>" example_engine example_fmt
      "[''out'', ''default.tsv'']" "[2, 3, 5]" "[''tmp'']" "''local''" 8]
  by (simp add: example_world_def example_engine_def)

section \<open>The coordinate translator on the store\<close>

lemma length3E:
  assumes "length xs = 3"
  obtains a b c where "xs = [a, b, c]"
proof -
  from assms obtain a ys where "xs = a # ys" "length ys = 2"
    by (cases xs) simp_all
  moreover then obtain b zs where "ys = b # zs" "length zs = 1"
    by (cases ys) simp_all
  moreover then obtain c where "zs = [c]"
    by (cases zs) simp_all
  ultimately show thesis using that by simp
qed

lemma translate_store:
  assumes "cols coords = [c0, c1, c2]" and "distinct (cols coords)" and "3 \<le> length res"
  shows "translate_coordinate_tuple res coords s =
           (Inr (rev_cols coords),
            s(base coords := (s (base coords))\<lparr>rws := map (scale3 (cols coords) res) (rws (s (base coords)))\<rparr>))"
proof -
  from assms have ne: "c0 \<noteq> c1" "c0 \<noteq> c2" "c1 \<noteq> c2" "c1 \<noteq> c0" "c2 \<noteq> c0" "c2 \<noteq> c1"
    by auto
  have len: "res \<noteq> []" "\<not> length res \<le> 1" "\<not> length res \<le> 2"
    using assms(3) by auto
  show ?thesis
    using assms(1) ne len
    by (simp add: translate_coordinate_tuple_def rev_cols_def imul_col_def scale3_def[abs_def] Let_def
        comp_def)
qed


lemma length_ge3E:
  assumes "3 \<le> length xs"
  obtains a b c ys where "xs = a # b # c # ys"
proof -
  from assms obtain a xs1 where 1: "xs = a # xs1" "2 \<le> length xs1"
    by (cases xs) simp_all
  then obtain b xs2 where 2: "xs1 = b # xs2" "1 \<le> length xs2"
    by (cases xs1) simp_all
  then obtain c ys where "xs2 = c # ys"
    by (cases xs2) simp_all
  with 1 2 show thesis using that by simp
qed

lemma read_scaled:
  assumes "cols coords = [c0, c1, c2]" and "distinct (cols coords)"
    and "list_all (\<lambda>c. c < ncols (s (base coords))) (cols coords)"
    and "wf_array (s (base coords))" and "3 \<le> length res"
  shows "read_view (s(base coords := (s (base coords))\<lparr>rws := map (scale3 (cols coords) res) (rws (s (base coords)))\<rparr>))
           (rev_cols coords)
         = map (translated res) (read_view s coords)"
proof -
  from assms(5) obtain a b c ys where res: "res = a # b # c # ys"
    by (rule length_ge3E)
  from assms(1,2) have ne: "c0 \<noteq> c1" "c0 \<noteq> c2" "c1 \<noteq> c2" "c1 \<noteq> c0" "c2 \<noteq> c0" "c2 \<noteq> c1"
    by auto
  have "map (\<lambda>c. scale3 [c0, c1, c2] res r ! c) [c2, c1, c0] = translated res (map (\<lambda>c. r ! c) [c0, c1, c2])"
    if "r \<in> set (rws (s (base coords)))" for r
  proof -
    from that assms(1,3,4) have "c0 < length r" "c1 < length r" "c2 < length r"
      by (auto simp add: wf_array_def list_all_iff)
    then show ?thesis
      using ne by (simp add: scale3_def translated_def res)
  qed
  then show ?thesis
    using assms(1) by (simp add: read_view_def rev_cols_def)
qed

text \<open>
  C2. For a batch of 3-wide coordinate tuples (a view of three distinct columns of a
  well-formed array) and a resolution of three positive values, the translator returns
  the reversed view, and reversing the axis order of what that view then shows and
  dividing each axis by its resolution value gives back the coordinates the batch showed
  before the call. Arithmetic is exact.
\<close>

theorem coordinate_round_trip:
  assumes "length (cols coords) = 3" and "distinct (cols coords)"
    and "list_all (\<lambda>c. c < ncols (s (base coords))) (cols coords)"
    and "wf_array (s (base coords))"
    and "length resolution = 3" and "list_all (\<lambda>r. 0 < r) resolution"
  shows "fst (translate_coordinate_tuple (rev resolution) coords s) = Inr (rev_cols coords)
       \<and> reverse_and_divide resolution
            (read_view (snd (translate_coordinate_tuple (rev resolution) coords s)) (rev_cols coords))
           = read_view s coords"
proof -
  from assms(1) obtain c0 c1 c2 where cs: "cols coords = [c0, c1, c2]"
    by (rule length3E)
  from assms(5) obtain r0 r1 r2 where rs: "resolution = [r0, r1, r2]"
    by (rule length3E)
  from assms(6) rs have pos: "r0 \<noteq> 0" "r1 \<noteq> 0" "r2 \<noteq> 0"
    by simp_all
  have tr: "translate_coordinate_tuple (rev resolution) coords s =
           (Inr (rev_cols coords),
            s(base coords := (s (base coords))\<lparr>rws := map (scale3 (cols coords) (rev resolution)) (rws (s (base coords)))\<rparr>))"
    using cs assms(2,5) by (intro translate_store) simp_all
  have rd: "read_view (snd (translate_coordinate_tuple (rev resolution) coords s)) (rev_cols coords)
            = map (translated (rev resolution)) (read_view s coords)"
    unfolding tr snd_conv using cs assms(2,3,4,5) by (intro read_scaled) simp_all
  have "map (\<lambda>(x, res). vdiv x res) (zip (rev (translated (rev resolution) (map ((!) r) (cols coords)))) resolution)
          = map ((!) r) (cols coords)" for r
    using pos by (simp add: cs rs translated_def vdiv_def vmul_def option.map_comp comp_def option.map_ident)
  then have "reverse_and_divide resolution (map (translated (rev resolution)) (read_view s coords))
          = read_view s coords"
    by (simp add: reverse_and_divide_def read_view_def comp_def)
  with tr rd show ?thesis by simp
qed

theorem coordinate_round_trip_witness:
  "fst (translate_coordinate_tuple (rev [2, 3, 5]) com_view store_3d) = Inr (rev_cols com_view)
   \<and> reverse_and_divide [2, 3, 5]
     (read_view (snd (translate_coordinate_tuple (rev [2, 3, 5]) com_view store_3d)) (rev_cols com_view))
   = [[Some 1, Some 2, Some 3], [Some 1, Some 2, Some 3], [Some 0, Some 0, Some 0]]"
proof -
  have "length (cols com_view) = 3" "distinct (cols com_view)"
    "list_all (\<lambda>c. c < ncols (store_3d (base com_view))) (cols com_view)"
    "wf_array (store_3d (base com_view))"
    "length [2, 3, 5 :: rat] = 3" "list_all (\<lambda>r. 0 < r) [2, 3, 5 :: rat]"
    by (simp_all add: com_view_def store_3d_def example_attributes_def wf_array_def)
  from coordinate_round_trip [of com_view store_3d "[2, 3, 5]", OF this]
  show ?thesis
    by (simp add: com_view_def store_3d_def example_attributes_def read_view_def)
qed

section \<open>The translator writes through to the array it is given a slice of\<close>

lemma scale3_other: "c \<notin> set cs \<Longrightarrow> length cs = 3 \<Longrightarrow> scale3 cs res r ! c = r ! c"
  by (erule length3E) (auto simp add: scale3_def)

lemma scale3_length: "length (scale3 cs res r) = length r"
  by (simp add: scale3_def)

lemma read_scaled_in_place:
  assumes "cols coords = [c0, c1, c2]" and "distinct (cols coords)"
    and "list_all (\<lambda>c. c < ncols (s (base coords))) (cols coords)"
    and "wf_array (s (base coords))" and "3 \<le> length res"
  shows "read_view (s(base coords := (s (base coords))\<lparr>rws := map (scale3 (cols coords) res) (rws (s (base coords)))\<rparr>))
           coords
         = map (\<lambda>r. rev (translated res r)) (read_view s coords)"
proof -
  from assms(5) obtain a b c ys where res: "res = a # b # c # ys"
    by (rule length_ge3E)
  from assms(1,2) have ne: "c0 \<noteq> c1" "c0 \<noteq> c2" "c1 \<noteq> c2" "c1 \<noteq> c0" "c2 \<noteq> c0" "c2 \<noteq> c1"
    by auto
  have "map (\<lambda>c. scale3 [c0, c1, c2] res r ! c) [c0, c1, c2]
          = rev (translated res (map (\<lambda>c. r ! c) [c0, c1, c2]))"
    if "r \<in> set (rws (s (base coords)))" for r
  proof -
    from that assms(1,3,4) have "c0 < length r" "c1 < length r" "c2 < length r"
      by (auto simp add: wf_array_def list_all_iff)
    then show ?thesis
      using ne by (simp add: scale3_def translated_def res)
  qed
  then show ?thesis
    using assms(1) by (simp add: read_view_def)
qed

text \<open>
  C7, as stated, fails: the translator multiplies in place through a view, so after the
  call the batch it was given, and the attribute array that batch is a slice of, hold
  other values than before.
\<close>

theorem translator_writes_through_counterexample:
  "read_view (snd (translate_coordinate_tuple [5, 3, 2] com_view store_3d)) com_view
     \<noteq> read_view store_3d com_view
   \<and> snd (translate_coordinate_tuple [5, 3, 2] com_view store_3d) ATTRIBUTES \<noteq> store_3d ATTRIBUTES"
  by (simp add: translate_coordinate_tuple_def rev_cols_def imul_col_def com_view_def store_3d_def
      example_attributes_def read_view_def vmul_def Let_def)

text \<open>
  C7, amended. For a batch of three distinct columns of a well-formed array and at least
  three resolution values the translator always returns the reversed view, whatever the
  coordinates are (zeros included), and that view shows every tuple in reverse order
  with each axis scaled. It scales in place: afterwards the batch it was given shows the
  scaled values in its own column order. Nothing else changes: every other array, the
  shape of the base array, and every column of the base array outside the batch are as
  before.
\<close>

theorem translator_scales_in_place:
  assumes "length (cols coords) = 3" and "distinct (cols coords)"
    and "list_all (\<lambda>c. c < ncols (s (base coords))) (cols coords)"
    and "wf_array (s (base coords))" and "3 \<le> length res"
  shows "fst (translate_coordinate_tuple res coords s) = Inr (rev_cols coords)
       \<and> read_view (snd (translate_coordinate_tuple res coords s)) (rev_cols coords)
           = map (translated res) (read_view s coords)
       \<and> read_view (snd (translate_coordinate_tuple res coords s)) coords
           = map (\<lambda>r. rev (translated res r)) (read_view s coords)
       \<and> (\<forall>a. a \<noteq> base coords \<longrightarrow> snd (translate_coordinate_tuple res coords s) a = s a)
       \<and> ncols (snd (translate_coordinate_tuple res coords s) (base coords)) = ncols (s (base coords))
       \<and> length (rws (snd (translate_coordinate_tuple res coords s) (base coords)))
           = length (rws (s (base coords)))
       \<and> (\<forall>i c. i < length (rws (s (base coords))) \<and> c \<notin> set (cols coords) \<longrightarrow>
             rws (snd (translate_coordinate_tuple res coords s) (base coords)) ! i ! c
               = rws (s (base coords)) ! i ! c)"
proof -
  from assms(1) obtain c0 c1 c2 where cs: "cols coords = [c0, c1, c2]"
    by (rule length3E)
  have tr: "translate_coordinate_tuple res coords s =
           (Inr (rev_cols coords),
            s(base coords := (s (base coords))\<lparr>rws := map (scale3 (cols coords) res) (rws (s (base coords)))\<rparr>))"
    using cs assms(2,5) by (rule translate_store)
  have 1: "read_view (snd (translate_coordinate_tuple res coords s)) (rev_cols coords)
            = map (translated res) (read_view s coords)"
    unfolding tr snd_conv using cs assms(2-5) by (rule read_scaled)
  have 2: "read_view (snd (translate_coordinate_tuple res coords s)) coords
            = map (\<lambda>r. rev (translated res r)) (read_view s coords)"
    unfolding tr snd_conv using cs assms(2-5) by (rule read_scaled_in_place)
  have 3: "rws (snd (translate_coordinate_tuple res coords s) (base coords)) ! i ! c
               = rws (s (base coords)) ! i ! c"
    if "i < length (rws (s (base coords)))" "c \<notin> set (cols coords)" for i c
    using that assms(1) by (simp add: tr scale3_other)
  from 1 2 3 show ?thesis
    by (simp add: tr)
qed

theorem translator_scales_in_place_witness:
  "fst (translate_coordinate_tuple [5, 3, 2] com_view store_3d) = Inr (rev_cols com_view)
   \<and> read_view (snd (translate_coordinate_tuple [5, 3, 2] com_view store_3d)) (rev_cols com_view)
       = [[Some 15, Some 6, Some 2], [Some 15, Some 6, Some 2], [Some 0, Some 0, Some 0]]
   \<and> read_view (snd (translate_coordinate_tuple [5, 3, 2] com_view store_3d)) com_view
       = [[Some 2, Some 6, Some 15], [Some 2, Some 6, Some 15], [Some 0, Some 0, Some 0]]
   \<and> rws (snd (translate_coordinate_tuple [5, 3, 2] com_view store_3d) ATTRIBUTES) ! 1 ! 1 = Some 16"
proof -
  have "length (cols com_view) = 3" "distinct (cols com_view)"
    "list_all (\<lambda>c. c < ncols (store_3d (base com_view))) (cols com_view)"
    "wf_array (store_3d (base com_view))" "3 \<le> length [5, 3, 2 :: rat]"
    by (simp_all add: com_view_def store_3d_def example_attributes_def wf_array_def)
  from translator_scales_in_place [of com_view store_3d "[5, 3, 2]", OF this]
  show ?thesis
    by (simp add: com_view_def store_3d_def example_attributes_def read_view_def translated_def vmul_def)
qed

section \<open>The table of the 3D extractor, row by row\<close>

lemma slice_whole:
  "a \<le> b \<Longrightarrow> b \<le> ncols (s x) \<Longrightarrow> slice_cols a b (whole s x) = \<lparr>base = x, cols = [a..<b]\<rparr>"
  by (simp add: slice_cols_def whole_def)

lemma upt_explicit:
  "[0..<1] = [0::nat]" "[1..<2] = [1::nat]" "[2..<5] = [2, 3, 4::nat]"
  "[5..<8] = [5, 6, 7::nat]" "[8..<11] = [8, 9, 10::nat]" "[Suc 0..<2] = [1]"
  by (simp_all add: upt_rec)

lemma concatenate_rows:
  assumes "vs \<noteq> []" and "\<forall>v\<in>set vs. length (rws (s (base v))) = n"
  shows "concatenate s vs =
           Inr \<lparr>ncols = sum_list (map (\<lambda>v. length (cols v)) vs),
                 rws = map (\<lambda>i. concat (map (\<lambda>v. map ((!) (rws (s (base v)) ! i)) (cols v)) vs)) [0..<n]\<rparr>"
proof -
  from assms obtain v0 vs' where vs: "vs = v0 # vs'"
    by (cases vs) simp_all
  have len: "list_all (\<lambda>p. length p = n) (map (read_view s) vs)"
    using assms(2) by (simp add: list_all_iff read_view_def)
  have n: "(case map (read_view s) vs of [] \<Rightarrow> 0 | p # _ \<Rightarrow> length p) = n"
    using assms(2) by (simp add: vs read_view_def)
  have "concat (map (\<lambda>p. p ! i) (map (read_view s) vs))
          = concat (map (\<lambda>v. map ((!) (rws (s (base v)) ! i)) (cols v)) vs)" if "i < n" for i
  proof -
    have "read_view s v ! i = map ((!) (rws (s (base v)) ! i)) (cols v)" if "v \<in> set vs" for v
      using that \<open>i < n\<close> assms(2) by (simp add: read_view_def)
    then show ?thesis
      by (simp add: comp_def cong: map_cong)
  qed
  then have "map (\<lambda>i. concat (map (\<lambda>p. p ! i) (map (read_view s) vs))) [0..<n]
          = map (\<lambda>i. concat (map (\<lambda>v. map ((!) (rws (s (base v)) ! i)) (cols v)) vs)) [0..<n]"
    by simp
  with len n assms(1) show ?thesis
    by (simp add: concatenate_def Let_def)
qed

lemma map_upt_nth: "map (\<lambda>i. f (xs ! i)) [0..<length xs] = map f xs"
  by (rule nth_equalityI) simp_all


lemma length_ge11E:
  assumes "11 \<le> length (r :: 'a list)"
  obtains a0 a1 a2 a3 a4 a5 a6 a7 a8 a9 a10 rest
  where "r = a0 # a1 # a2 # a3 # a4 # a5 # a6 # a7 # a8 # a9 # a10 # rest"
  using assms by (auto simp add: numeral_eq_Suc Suc_le_length_iff)

lemma scaled_row:
  assumes "11 \<le> length r" and "3 \<le> length rm"
  shows "(let r' = scale3 [8, 9, 10] rm (scale3 [5, 6, 7] rm (scale3 [2, 3, 4] rm r))
          in concat (map (\<lambda>v. map ((!) r') (cols v))
               [\<lparr>base = ATTRIBUTES, cols = [0]\<rparr>, \<lparr>base = ATTRIBUTES, cols = [4, 3, 2]\<rparr>,
                \<lparr>base = ATTRIBUTES, cols = [7, 6, 5]\<rparr>, \<lparr>base = ATTRIBUTES, cols = [10, 9, 8]\<rparr>,
                \<lparr>base = ATTRIBUTES, cols = [1]\<rparr>]))
         = table_row_3d rm (take 3 (drop 2 r)) r"
proof -
  from assms(1) obtain a0 a1 a2 a3 a4 a5 a6 a7 a8 a9 a10 rest
    where r: "r = a0 # a1 # a2 # a3 # a4 # a5 # a6 # a7 # a8 # a9 # a10 # rest"
    by (rule length_ge11E)
  from assms(2) obtain x y z ys where rm: "rm = x # y # z # ys"
    by (rule length_ge3E)
  show ?thesis
    by (simp add: r rm scale3_def table_row_3d_def translated_def eval_nat_numeral)
qed


lemma n5_to_pandas_none:
  assumes "n5 w (p, k) = Some attrs" and "wf_array attrs" and "11 \<le> ncols attrs"
    and "3 \<le> length resolution"
  shows "fst (n5_to_pandas p k resolution None w) =
           remove_background_label_row
             \<lparr>df_columns = col_names_3d, df_rows = enumerate 0 (rows_3d resolution attrs)\<rparr>"
proof -
  define s1 :: store where "s1 = (\<lambda>_. no_array)(ATTRIBUTES := attrs)"
  define rm where "rm = rev resolution"
  define u where "u = (\<lambda>r. scale3 [8, 9, 10] rm (scale3 [5, 6, 7] rm (scale3 [2, 3, 4] rm r)))"
  define s4 :: store where "s4 = s1(ATTRIBUTES := attrs\<lparr>rws := map u (rws attrs)\<rparr>)"
  have rm: "3 \<le> length rm"
    using assms(4) by (simp add: rm_def)
  have nc: "ncols (s1 ATTRIBUTES) = ncols attrs"
    by (simp add: s1_def)
  have v: "slice_cols 0 1 (whole s1 ATTRIBUTES) = \<lparr>base = ATTRIBUTES, cols = [0]\<rparr>"
    "slice_cols 2 5 (whole s1 ATTRIBUTES) = \<lparr>base = ATTRIBUTES, cols = [2, 3, 4]\<rparr>"
    "slice_cols 5 8 (whole s1 ATTRIBUTES) = \<lparr>base = ATTRIBUTES, cols = [5, 6, 7]\<rparr>"
    "slice_cols 8 11 (whole s1 ATTRIBUTES) = \<lparr>base = ATTRIBUTES, cols = [8, 9, 10]\<rparr>"
    "slice_cols 1 2 (whole s1 ATTRIBUTES) = \<lparr>base = ATTRIBUTES, cols = [1]\<rparr>"
    "slice_cols 0 (Suc 0) (whole s1 ATTRIBUTES) = \<lparr>base = ATTRIBUTES, cols = [0]\<rparr>"
    "slice_cols (Suc 0) 2 (whole s1 ATTRIBUTES) = \<lparr>base = ATTRIBUTES, cols = [1]\<rparr>"
    using assms(3) by (simp_all add: slice_whole nc upt_explicit)
  have t1: "translate_coordinate_tuple rm \<lparr>base = ATTRIBUTES, cols = [2, 3, 4]\<rparr> s1
              = (Inr \<lparr>base = ATTRIBUTES, cols = [4, 3, 2]\<rparr>,
                 s1(ATTRIBUTES := attrs\<lparr>rws := map (scale3 [2, 3, 4] rm) (rws attrs)\<rparr>))"
    using rm by (subst translate_store [where ?c0.0 = 2 and ?c1.0 = 3 and ?c2.0 = 4])
      (simp_all add: rev_cols_def s1_def)
  have t2: "translate_coordinate_tuple rm \<lparr>base = ATTRIBUTES, cols = [5, 6, 7]\<rparr>
              (s1(ATTRIBUTES := attrs\<lparr>rws := map (scale3 [2, 3, 4] rm) (rws attrs)\<rparr>))
              = (Inr \<lparr>base = ATTRIBUTES, cols = [7, 6, 5]\<rparr>,
                 s1(ATTRIBUTES := attrs\<lparr>rws := map (\<lambda>r. scale3 [5, 6, 7] rm (scale3 [2, 3, 4] rm r)) (rws attrs)\<rparr>))"
    using rm by (subst translate_store [where ?c0.0 = 5 and ?c1.0 = 6 and ?c2.0 = 7])
      (simp_all add: rev_cols_def comp_def)
  have t3: "translate_coordinate_tuple rm \<lparr>base = ATTRIBUTES, cols = [8, 9, 10]\<rparr>
              (s1(ATTRIBUTES := attrs\<lparr>rws := map (\<lambda>r. scale3 [5, 6, 7] rm (scale3 [2, 3, 4] rm r)) (rws attrs)\<rparr>))
              = (Inr \<lparr>base = ATTRIBUTES, cols = [10, 9, 8]\<rparr>, s4)"
    using rm by (subst translate_store [where ?c0.0 = 8 and ?c1.0 = 9 and ?c2.0 = 10])
      (simp_all add: rev_cols_def comp_def s4_def u_def)
  let ?vs = "[\<lparr>base = ATTRIBUTES, cols = [0]\<rparr>, \<lparr>base = ATTRIBUTES, cols = [4, 3, 2]\<rparr>,
              \<lparr>base = ATTRIBUTES, cols = [7, 6, 5]\<rparr>, \<lparr>base = ATTRIBUTES, cols = [10, 9, 8]\<rparr>,
              \<lparr>base = ATTRIBUTES, cols = [1]\<rparr>]"
  have rows: "map (\<lambda>i. concat (map (\<lambda>v. map ((!) (rws (s4 (base v)) ! i)) (cols v)) ?vs))
                  [0..<length (rws attrs)]
              = rows_3d resolution attrs"
  proof -
    have "map (\<lambda>i. concat (map (\<lambda>v. map ((!) (rws (s4 (base v)) ! i)) (cols v)) ?vs))
              [0..<length (rws attrs)]
          = map (\<lambda>i. (\<lambda>r. concat (map (\<lambda>v. map ((!) (u r)) (cols v)) ?vs)) (rws attrs ! i))
              [0..<length (rws attrs)]"
      by (simp add: s4_def)
    also have "\<dots> = map (\<lambda>r. concat (map (\<lambda>v. map ((!) (u r)) (cols v)) ?vs)) (rws attrs)"
      by (rule map_upt_nth)
    also have "\<dots> = rows_3d resolution attrs"
      unfolding rows_3d_def
    proof (rule map_cong [OF refl])
      fix r assume "r \<in> set (rws attrs)"
      with assms(2,3) have "11 \<le> length r"
        by (auto simp add: wf_array_def list_all_iff)
      from scaled_row [OF this rm]
      show "concat (map (\<lambda>v. map ((!) (u r)) (cols v)) ?vs)
              = table_row_3d (rev resolution) (take 3 (drop 2 r)) r"
        by (simp add: u_def rm_def Let_def)
    qed
    finally show ?thesis .
  qed
  have "?vs \<noteq> []" and "\<forall>v\<in>set ?vs. length (rws (s4 (base v))) = length (rws attrs)"
    by (simp_all add: s4_def)
  from concatenate_rows [OF this]
  have c: "concatenate s4 ?vs = Inr \<lparr>ncols = 11, rws = rows_3d resolution attrs\<rparr>"
    unfolding rows by simp
  show ?thesis
    using assms(1)
    by (simp add: n5_to_pandas_def Let_def v t1 t2 t3 c [unfolded One_nat_def] DataFrame_def
        col_names_3d_def flip: s1_def rm_def)
qed


lemma merged_row:
  assumes "11 \<le> length r" and "3 \<le> length rm" and "length m = 3"
  shows "(let r' = scale3 [8, 9, 10] rm (scale3 [5, 6, 7] rm r); a' = scale3 [0, 1, 2] rm m
          in [r' ! 0] @ [a' ! 2, a' ! 1, a' ! 0] @ [r' ! 7, r' ! 6, r' ! 5]
             @ [r' ! 10, r' ! 9, r' ! 8] @ [r' ! 1])
         = table_row_3d rm m r"
proof -
  from assms(1) obtain a0 a1 a2 a3 a4 a5 a6 a7 a8 a9 a10 rest
    where r: "r = a0 # a1 # a2 # a3 # a4 # a5 # a6 # a7 # a8 # a9 # a10 # rest"
    by (rule length_ge11E)
  from assms(2) obtain x y z ys where rm: "rm = x # y # z # ys"
    by (rule length_ge3E)
  from assms(3) obtain m0 m1 m2 where m: "m = [m0, m1, m2]"
    by (rule length3E)
  show ?thesis
    by (simp add: r rm m scale3_def table_row_3d_def translated_def eval_nat_numeral)
qed

lemma put_cols3: "length a = 3 \<Longrightarrow> length v = 3 \<Longrightarrow> put_cols [0, 1, 2] v a = v"
  by (erule length3E, erule length3E) (simp add: put_cols_def)

lemma read3: "length a = 3 \<Longrightarrow> map ((!) a) [0, 1, 2] = a"
  by (erule length3E) simp

lemma take3_drop2: "11 \<le> length r \<Longrightarrow> take 3 (drop 2 r) = [r ! 2, r ! 3, r ! 4]"
  by (erule length_ge11E) (simp add: eval_nat_numeral)

lemma merge_anchors_eq:
  assumes "wf_array (s ATTRIBUTES)" and "11 \<le> ncols (s ATTRIBUTES)" and "3 \<le> length rm"
    and "wf_array (s ANCHORS)" and "ncols (s ANCHORS) = 3"
    and "length (rws (s ANCHORS)) = length (rws (s ATTRIBUTES))"
  shows "merge_anchors rm \<lparr>base = ATTRIBUTES, cols = [2, 3, 4]\<rparr> s =
           (Inr \<lparr>base = ANCHORS, cols = [2, 1, 0]\<rparr>,
            s(ANCHORS := (s ANCHORS)\<lparr>rws := map (\<lambda>(a, r). scale3 [0, 1, 2] rm (merged_anchor a r))
                                                (zip (rws (s ANCHORS)) (rws (s ATTRIBUTES)))\<rparr>))"
proof -
  let ?A = "rws (s ANCHORS)" and ?R = "rws (s ATTRIBUTES)"
  have w: "whole s ANCHORS = \<lparr>base = ANCHORS, cols = [0, 1, 2]\<rparr>"
    using assms(5) by (simp add: whole_def upt_rec)
  have lenA: "length a = 3" if "a \<in> set ?A" for a
    using that assms(4,5) by (auto simp add: wf_array_def list_all_iff)
  have lenR: "11 \<le> length r" if "r \<in> set ?R" for r
    using that assms(1,2) by (auto simp add: wf_array_def list_all_iff)
  have merged: "map (\<lambda>(m, r, v). if m then put_cols [0, 1, 2] v r else r)
                  (zip (map (list_all isclose0) (read_view s \<lparr>base = ANCHORS, cols = [0, 1, 2]\<rparr>))
                     (zip ?A (read_view s \<lparr>base = ATTRIBUTES, cols = [2, 3, 4]\<rparr>)))
                = map (\<lambda>(a, r). merged_anchor a r) (zip ?A ?R)"
  proof (rule nth_equalityI)
    show "length (map (\<lambda>(m, r, v). if m then put_cols [0, 1, 2] v r else r)
                  (zip (map (list_all isclose0) (read_view s \<lparr>base = ANCHORS, cols = [0, 1, 2]\<rparr>))
                     (zip ?A (read_view s \<lparr>base = ATTRIBUTES, cols = [2, 3, 4]\<rparr>))))
          = length (map (\<lambda>(a, r). merged_anchor a r) (zip ?A ?R))"
      by (simp add: read_view_def)
  next
    fix i
    assume "i < length (map (\<lambda>(m, r, v). if m then put_cols [0, 1, 2] v r else r)
                  (zip (map (list_all isclose0) (read_view s \<lparr>base = ANCHORS, cols = [0, 1, 2]\<rparr>))
                     (zip ?A (read_view s \<lparr>base = ATTRIBUTES, cols = [2, 3, 4]\<rparr>))))"
    then have i: "i < length ?A" "i < length ?R"
      using assms(6) by (simp_all add: read_view_def)
    then have a: "length (?A ! i) = 3" and r: "11 \<le> length (?R ! i)"
      using lenA lenR by simp_all
    have "map ((!) (?A ! i)) [0, 1, 2] = ?A ! i"
      using a by (rule read3)
    moreover have "put_cols [0, 1, 2] [?R ! i ! 2, ?R ! i ! 3, ?R ! i ! 4] (?A ! i)
                     = [?R ! i ! 2, ?R ! i ! 3, ?R ! i ! 4]"
      using a by (intro put_cols3) simp_all
    ultimately show "map (\<lambda>(m, r, v). if m then put_cols [0, 1, 2] v r else r)
                  (zip (map (list_all isclose0) (read_view s \<lparr>base = ANCHORS, cols = [0, 1, 2]\<rparr>))
                     (zip ?A (read_view s \<lparr>base = ATTRIBUTES, cols = [2, 3, 4]\<rparr>))) ! i
          = map (\<lambda>(a, r). merged_anchor a r) (zip ?A ?R) ! i"
      using i take3_drop2 [OF r] by (simp add: read_view_def merged_anchor_def)
  qed
  have asg: "assign_rows (map (list_all isclose0) (read_view s \<lparr>base = ANCHORS, cols = [0, 1, 2]\<rparr>))
               \<lparr>base = ANCHORS, cols = [0, 1, 2]\<rparr> \<lparr>base = ATTRIBUTES, cols = [2, 3, 4]\<rparr> s
             = Inr (s(ANCHORS := (s ANCHORS)\<lparr>rws := map (\<lambda>(a, r). merged_anchor a r) (zip ?A ?R)\<rparr>))"
    using merged by (simp add: assign_rows_def Let_def cong: if_cong)
  have tr: "translate_coordinate_tuple rm \<lparr>base = ANCHORS, cols = [0, 1, 2]\<rparr>
              (s(ANCHORS := (s ANCHORS)\<lparr>rws := map (\<lambda>(a, r). merged_anchor a r) (zip ?A ?R)\<rparr>))
            = (Inr \<lparr>base = ANCHORS, cols = [2, 1, 0]\<rparr>,
               s(ANCHORS := (s ANCHORS)\<lparr>rws := map (\<lambda>(a, r). scale3 [0, 1, 2] rm (merged_anchor a r))
                                                (zip ?A ?R)\<rparr>))"
    using assms(3) by (subst translate_store [where ?c0.0 = 0 and ?c1.0 = 1 and ?c2.0 = 2])
      (simp_all add: rev_cols_def comp_def split_def)
  show ?thesis
    using assms(5,6)
    by (simp add: merge_anchors_def Let_def w asg [unfolded One_nat_def] tr [unfolded One_nat_def])
qed


lemma n5_to_pandas_some:
  assumes "n5 w (p, k) = Some attrs" and "wf_array attrs" and "11 \<le> ncols attrs"
    and "3 \<le> length resolution"
    and "wf_array anc" and "ncols anc = 3" and "length (rws anc) = length (rws attrs)"
  shows "fst (n5_to_pandas p k resolution (Some anc) w) =
           remove_background_label_row
             \<lparr>df_columns = col_names_3d, df_rows = enumerate 0 (rows_3d_anchored resolution anc attrs)\<rparr>"
proof -
  define s1 :: store where "s1 = ((\<lambda>_. no_array)(ANCHORS := anc))(ATTRIBUTES := attrs)"
  define rm where "rm = rev resolution"
  define A' where "A' = map (\<lambda>(a, r). scale3 [0, 1, 2] rm (merged_anchor a r)) (zip (rws anc) (rws attrs))"
  define u where "u = (\<lambda>r. scale3 [8, 9, 10] rm (scale3 [5, 6, 7] rm r))"
  define s2 :: store where "s2 = s1(ANCHORS := anc\<lparr>rws := A'\<rparr>)"
  define s4 :: store where "s4 = s2(ATTRIBUTES := attrs\<lparr>rws := map u (rws attrs)\<rparr>)"
  have rm: "3 \<le> length rm"
    using assms(4) by (simp add: rm_def)
  have nc: "ncols (s1 ATTRIBUTES) = ncols attrs"
    by (simp add: s1_def)
  have v: "slice_cols 0 1 (whole s1 ATTRIBUTES) = \<lparr>base = ATTRIBUTES, cols = [0]\<rparr>"
    "slice_cols 2 5 (whole s1 ATTRIBUTES) = \<lparr>base = ATTRIBUTES, cols = [2, 3, 4]\<rparr>"
    "slice_cols 5 8 (whole s1 ATTRIBUTES) = \<lparr>base = ATTRIBUTES, cols = [5, 6, 7]\<rparr>"
    "slice_cols 8 11 (whole s1 ATTRIBUTES) = \<lparr>base = ATTRIBUTES, cols = [8, 9, 10]\<rparr>"
    "slice_cols 1 2 (whole s1 ATTRIBUTES) = \<lparr>base = ATTRIBUTES, cols = [1]\<rparr>"
    "slice_cols 0 (Suc 0) (whole s1 ATTRIBUTES) = \<lparr>base = ATTRIBUTES, cols = [0]\<rparr>"
    "slice_cols (Suc 0) 2 (whole s1 ATTRIBUTES) = \<lparr>base = ATTRIBUTES, cols = [1]\<rparr>"
    using assms(3) by (simp_all add: slice_whole nc upt_explicit)
  have m: "merge_anchors rm \<lparr>base = ATTRIBUTES, cols = [2, 3, 4]\<rparr> s1
             = (Inr \<lparr>base = ANCHORS, cols = [2, 1, 0]\<rparr>, s2)"
    using assms(2,3,5,6,7) rm
    by (subst merge_anchors_eq) (simp_all add: s1_def s2_def A'_def)
  have t2: "translate_coordinate_tuple rm \<lparr>base = ATTRIBUTES, cols = [5, 6, 7]\<rparr> s2
              = (Inr \<lparr>base = ATTRIBUTES, cols = [7, 6, 5]\<rparr>,
                 s2(ATTRIBUTES := attrs\<lparr>rws := map (scale3 [5, 6, 7] rm) (rws attrs)\<rparr>))"
    using rm by (subst translate_store [where ?c0.0 = 5 and ?c1.0 = 6 and ?c2.0 = 7])
      (simp_all add: rev_cols_def s2_def s1_def)
  have t3: "translate_coordinate_tuple rm \<lparr>base = ATTRIBUTES, cols = [8, 9, 10]\<rparr>
              (s2(ATTRIBUTES := attrs\<lparr>rws := map (scale3 [5, 6, 7] rm) (rws attrs)\<rparr>))
              = (Inr \<lparr>base = ATTRIBUTES, cols = [10, 9, 8]\<rparr>, s4)"
    using rm by (subst translate_store [where ?c0.0 = 8 and ?c1.0 = 9 and ?c2.0 = 10])
      (simp_all add: rev_cols_def comp_def s4_def u_def)
  let ?vs = "[\<lparr>base = ATTRIBUTES, cols = [0]\<rparr>, \<lparr>base = ANCHORS, cols = [2, 1, 0]\<rparr>,
              \<lparr>base = ATTRIBUTES, cols = [7, 6, 5]\<rparr>, \<lparr>base = ATTRIBUTES, cols = [10, 9, 8]\<rparr>,
              \<lparr>base = ATTRIBUTES, cols = [1]\<rparr>]"
  have lenA: "length a = 3" if "a \<in> set (rws anc)" for a
    using that assms(5,6) by (auto simp add: wf_array_def list_all_iff)
  have lenR: "11 \<le> length r" if "r \<in> set (rws attrs)" for r
    using that assms(2,3) by (auto simp add: wf_array_def list_all_iff)
  have rows: "map (\<lambda>i. concat (map (\<lambda>v. map ((!) (rws (s4 (base v)) ! i)) (cols v)) ?vs))
                  [0..<length (rws attrs)]
              = rows_3d_anchored resolution anc attrs"
  proof (rule nth_equalityI)
    show "length (map (\<lambda>i. concat (map (\<lambda>v. map ((!) (rws (s4 (base v)) ! i)) (cols v)) ?vs))
                  [0..<length (rws attrs)])
          = length (rows_3d_anchored resolution anc attrs)"
      using assms(7) by (simp add: rows_3d_anchored_def)
  next
    fix i
    assume "i < length (map (\<lambda>i. concat (map (\<lambda>v. map ((!) (rws (s4 (base v)) ! i)) (cols v)) ?vs))
                  [0..<length (rws attrs)])"
    then have i: "i < length (rws attrs)" "i < length (rws anc)"
      using assms(7) by simp_all
    then have r: "11 \<le> length (rws attrs ! i)" and a: "length (rws anc ! i) = 3"
      using lenA lenR by simp_all
    have ma: "length (merged_anchor (rws anc ! i) (rws attrs ! i)) = 3"
      using a r by (simp add: merged_anchor_def)
    from merged_row [OF r rm ma]
    show "map (\<lambda>i. concat (map (\<lambda>v. map ((!) (rws (s4 (base v)) ! i)) (cols v)) ?vs))
                  [0..<length (rws attrs)] ! i
          = rows_3d_anchored resolution anc attrs ! i"
      using i by (simp add: s4_def s2_def A'_def u_def rows_3d_anchored_def rm_def Let_def)
  qed
  have "?vs \<noteq> []" and "\<forall>v\<in>set ?vs. length (rws (s4 (base v))) = length (rws attrs)"
    using assms(7) by (simp_all add: s4_def s2_def A'_def)
  from concatenate_rows [OF this]
  have c: "concatenate s4 ?vs = Inr \<lparr>ncols = 11, rws = rows_3d_anchored resolution anc attrs\<rparr>"
    unfolding rows by simp
  show ?thesis
    using assms(1)
    by (simp add: n5_to_pandas_def Let_def v m [unfolded One_nat_def] t2 t3
        c [unfolded One_nat_def] DataFrame_def col_names_3d_def flip: s1_def rm_def)
qed

lemma remove_background_3d:
  "remove_background_label_row \<lparr>df_columns = col_names_3d, df_rows = X\<rparr>
     = Inr \<lparr>df_columns = col_names_3d, df_rows = filter (\<lambda>(k, r). r ! 0 \<noteq> Some 0) X\<rparr>"
  by (simp add: remove_background_label_row_def col_names_3d_def)

lemma enumerate_filter_indices:
  "map fst (filter (\<lambda>(k, r). Q r) (enumerate 0 xs)) = filter (\<lambda>i. Q (xs ! i)) [0..<length xs]"
proof -
  have "enumerate 0 xs = map (\<lambda>i. (i, xs ! i)) [0..<length xs]"
    by (rule nth_equalityI) (simp_all add: nth_enumerate_eq)
  then show ?thesis
    by (simp add: filter_map comp_def)
qed

lemma table_row_3d_cells:
  assumes "length m = 3" and "3 \<le> length rm"
  shows "table_row_3d rm m r ! 0 = r ! 0"
    and "take 3 (drop (Suc 0) (table_row_3d rm m r)) = translated rm m"
  using assms by (simp_all add: table_row_3d_def translated_def)

lemma table_row_3d_last:
  assumes "length m = 3" and "3 \<le> length rm" and "11 \<le> length r"
  shows "table_row_3d rm m r ! 10 = r ! 1" and "length (table_row_3d rm m r) = 11"
  using assms by (simp_all add: table_row_3d_def translated_def nth_append)

section \<open>The merge of supplied anchors with the centers of mass\<close>

text \<open>
  C6. With supplied anchors (one 3-wide row per row of a well-formed attribute array of
  at least eleven columns, and a resolution of three values) the table is produced, it
  holds the rows whose label is not 0, and in the row that comes from row \<open>i\<close> the three
  anchor cells are the translation (reverse the axes, scale by the reversed resolution)
  of: the untranslated center of mass of row \<open>i\<close> when all three supplied coordinates
  of row \<open>i\<close> are close to zero in the sense of \<^verbatim>\<open>np.isclose\<close>, and the supplied
  anchor of row \<open>i\<close> otherwise.
\<close>

theorem anchor_merge_policy:
  assumes "n5 w (p, k) = Some attrs" and "wf_array attrs" and "11 \<le> ncols attrs"
    and "length resolution = 3"
    and "wf_array anc" and "ncols anc = 3" and "length (rws anc) = length (rws attrs)"
  shows "\<exists>df. fst (n5_to_pandas p k resolution (Some anc) w) = Inr df
           \<and> map fst (df_rows df) = filter (\<lambda>i. rws attrs ! i ! 0 \<noteq> Some 0) [0..<length (rws attrs)]
           \<and> (\<forall>(i, cells) \<in> set (df_rows df).
                 take 3 (drop 1 cells)
                   = translated (rev resolution)
                       (if list_all isclose0 (rws anc ! i) then take 3 (drop 2 (rws attrs ! i))
                        else rws anc ! i))"
proof -
  let ?rows = "rows_3d_anchored resolution anc attrs"
  let ?df = "\<lparr>df_columns = col_names_3d,
              df_rows = filter (\<lambda>(k, r). r ! 0 \<noteq> Some 0) (enumerate 0 ?rows)\<rparr>"
  have res: "3 \<le> length (rev resolution)"
    using assms(4) by simp
  have len: "length ?rows = length (rws attrs)"
    using assms(7) by (simp add: rows_3d_anchored_def)
  have m: "length (merged_anchor (rws anc ! i) (rws attrs ! i)) = 3" if "i < length (rws attrs)" for i
  proof -
    from that assms(7) have "rws anc ! i \<in> set (rws anc)" "rws attrs ! i \<in> set (rws attrs)"
      by simp_all
    with assms(2,3,5,6) have "length (rws anc ! i) = 3" "11 \<le> length (rws attrs ! i)"
      by (auto simp add: wf_array_def list_all_iff)
    then show ?thesis
      by (simp add: merged_anchor_def)
  qed
  have row: "?rows ! i = table_row_3d (rev resolution) (merged_anchor (rws anc ! i) (rws attrs ! i)) (rws attrs ! i)"
    if "i < length (rws attrs)" for i
    using that assms(7) by (simp add: rows_3d_anchored_def)
  have 1: "fst (n5_to_pandas p k resolution (Some anc) w) = Inr ?df"
    using assms by (simp add: n5_to_pandas_some remove_background_3d)
  have "map fst (df_rows ?df) = filter (\<lambda>i. ?rows ! i ! 0 \<noteq> Some 0) [0..<length ?rows]"
    by (simp add: enumerate_filter_indices)
  also have "\<dots> = filter (\<lambda>i. rws attrs ! i ! 0 \<noteq> Some 0) [0..<length (rws attrs)]"
    unfolding len by (rule filter_cong) (simp_all add: row m assms(4) table_row_3d_cells)
  finally have 2: "map fst (df_rows ?df)
      = filter (\<lambda>i. rws attrs ! i ! 0 \<noteq> Some 0) [0..<length (rws attrs)]" .
  have 3: "take 3 (drop 1 cells)
             = translated (rev resolution)
                 (if list_all isclose0 (rws anc ! i) then take 3 (drop 2 (rws attrs ! i)) else rws anc ! i)"
    if "(i, cells) \<in> set (df_rows ?df)" for i cells
  proof -
    from that have "i < length (rws attrs)" and "cells = ?rows ! i"
      by (auto simp add: in_set_enumerate_eq len)
    then have "take 3 (drop 1 cells)
                 = translated (rev resolution) (merged_anchor (rws anc ! i) (rws attrs ! i))"
      using m [of i] assms(4) by (simp add: row table_row_3d_cells)
    then show ?thesis
      by (simp add: merged_anchor_def)
  qed
  from 1 2 3 show ?thesis
    by blast
qed


theorem anchor_merge_policy_witness:
  "\<exists>df. fst (n5_to_pandas [''tmp'', ''data.n5''] ''attributes'' [5, 3, 2] (Some example_anchors)
               attribute_world) = Inr df
        \<and> map fst (df_rows df) = [1, 2]
        \<and> (\<forall>(i, cells) \<in> set (df_rows df).
              take 3 (drop 1 cells)
                = (if i = 1 then [Some 6, Some 6, Some 5] else [Some 0, Some 0, Some 35]))"
proof -
  have "n5 attribute_world ([''tmp'', ''data.n5''], ''attributes'') = Some example_attributes"
    "wf_array example_attributes" "11 \<le> ncols example_attributes" "length [5, 3, 2 :: rat] = 3"
    "wf_array example_anchors" "ncols example_anchors = 3"
    "length (rws example_anchors) = length (rws example_attributes)"
    by (simp_all add: attribute_world_def example_world_def example_attributes_def
        example_anchors_def wf_array_def)
  from anchor_merge_policy [OF this] obtain df where
    df: "fst (n5_to_pandas [''tmp'', ''data.n5''] ''attributes'' [5, 3, 2] (Some example_anchors)
               attribute_world) = Inr df"
    and idx: "map fst (df_rows df)
          = filter (\<lambda>i. rws example_attributes ! i ! 0 \<noteq> Some 0) [0..<length (rws example_attributes)]"
    and cells: "\<forall>(i, cells) \<in> set (df_rows df).
                 take 3 (drop 1 cells)
                   = translated (rev [5, 3, 2])
                       (if list_all isclose0 (rws example_anchors ! i)
                        then take 3 (drop 2 (rws example_attributes ! i))
                        else rws example_anchors ! i)"
    by blast
  have i12: "map fst (df_rows df) = [1, 2]"
    unfolding idx by (simp add: example_attributes_def upt_rec)
  have "take 3 (drop 1 c) = (if i = 1 then [Some 6, Some 6, Some 5] else [Some 0, Some 0, Some 35])"
    if mem: "(i, c) \<in> set (df_rows df)" for i c
  proof -
    from mem have "i \<in> set (map fst (df_rows df))"
      by force
    then consider "i = 1" | "i = 2"
      unfolding i12 by auto
    moreover from cells mem
    have eq: "take 3 (drop 1 c)
                = translated (rev [5, 3, 2])
                    (if list_all isclose0 (rws example_anchors ! i)
                     then take 3 (drop 2 (rws example_attributes ! i))
                     else rws example_anchors ! i)"
      by blast
    ultimately show ?thesis
      by cases
        (simp_all add: example_anchors_def example_attributes_def translated_def isclose0_def
          vmul_def)
  qed
  then have "\<forall>(i, cells) \<in> set (df_rows df).
              take 3 (drop 1 cells)
                = (if i = 1 then [Some 6, Some 6, Some 5] else [Some 0, Some 0, Some 35])"
    by blast
  with df i12 show ?thesis
    by - (rule exI [of _ df], simp)
qed

section \<open>The columns of the two extractors\<close>

lemma table_rows_2d_ok:
  "\<forall>p\<in>set ps. label p < length cs \<Longrightarrow>
     table_rows_2d cs res ps = Inr (map (\<lambda>p. table_row_2d (cs ! label p) res p) ps)"
  by (induction ps) simp_all

lemma table_rows_2d_fails:
  "\<exists>p\<in>set ps. length cs \<le> label p \<Longrightarrow> table_rows_2d cs res ps = Inl IndexError"
proof (induction ps)
  case Nil
  then show ?case by simp
next
  case (Cons a ps)
  show ?case
  proof (cases "length cs \<le> label a")
    case True
    then show ?thesis by simp
  next
    case False
    with Cons.prems have "\<exists>p\<in>set ps. length cs \<le> label p"
      by auto
    with Cons.IH False show ?thesis by simp
  qed
qed

lemma length_table_row_2d: "length res = 2 \<Longrightarrow> length (table_row_2d ce res p) = 8"
  by (simp add: table_row_2d_def scaled_def bbox_list_def split: prod.splits)

lemma compute_table_2d_eq:
  "compute_table_2d seg res =
     (if \<not> (length res = ndim seg \<and> ndim seg = 2) then Inl AssertionError
      else if \<exists>p\<in>set (props seg). length (centers seg) \<le> label p then Inl IndexError
      else if props seg = [] then Inl IndexError
      else Inr \<lparr>df_columns = col_names_2d,
                df_rows = enumerate 0 (map (\<lambda>p. table_row_2d (centers seg ! label p) res p) (props seg))\<rparr>)"
proof -
  consider "\<not> (length res = ndim seg \<and> ndim seg = 2)"
    | "length res = 2" "ndim seg = 2" "\<exists>p\<in>set (props seg). length (centers seg) \<le> label p"
    | "length res = 2" "ndim seg = 2" "\<forall>p\<in>set (props seg). label p < length (centers seg)"
    by fastforce
  then show ?thesis
  proof cases
    case 1
    then show ?thesis by (simp add: compute_table_2d_def)
  next
    case 2
    then show ?thesis by (simp add: compute_table_2d_def table_rows_2d_fails)
  next
    case 3
    then have "\<not> (\<exists>p\<in>set (props seg). length (centers seg) \<le> label p)"
      by (simp add: not_le)
    with 3 show ?thesis
      by (cases "props seg")
        (simp_all add: compute_table_2d_def table_rows_2d_ok length_table_row_2d DataFrame_def
          col_names_2d_def del: table_rows_2d.simps)
  qed
qed

lemma remove_background_columns:
  "remove_background_label_row t = Inr t' \<Longrightarrow> df_columns t' = df_columns t"
  by (auto simp add: remove_background_label_row_def split: option.splits)

lemma DataFrame_columns: "DataFrame data cn = Inr t \<Longrightarrow> df_columns t = cn"
  by (auto simp add: DataFrame_def split: if_splits)

lemma n5_to_pandas_columns:
  "fst (n5_to_pandas p k res anchors w) = Inr df \<Longrightarrow> df_columns df = col_names_3d"
  by (auto simp add: n5_to_pandas_def Let_def split: option.splits prod.splits sum.splits
      dest!: remove_background_columns DataFrame_columns)

lemma compute_table_3d_columns:
  "fst (compute_table_3d engine seg_path seg_key res correct_anchors tmp_folder target max_jobs w) = Inr df
     \<Longrightarrow> df_columns df = col_names_3d"
  by (auto simp add: compute_table_3d_eq Let_def n5_to_pandas_columns split: if_splits)


text \<open>
  C1. Whatever the input, a table that the 2D extractor returns has exactly the columns
  \<open>label_id, anchor_y, anchor_x, bb_min_y, bb_min_x, bb_max_y, bb_max_x, n_pixels\<close>, in
  this order, and a table that the 3D extractor returns has exactly the columns
  \<open>label_id, anchor_x, anchor_y, anchor_z, bb_min_x, bb_min_y, bb_min_z, bb_max_x,
  bb_max_y, bb_max_z, n_pixels\<close>, in this order. The 2D extractor does return a table
  when the segmentation and the resolution have two dimensions, there is at least one
  region and every label has its center; the 3D extractor does when the workflow
  succeeds and leaves a well-formed attribute array of at least eleven columns, the
  resolution has three values and no anchor correction is asked for.
\<close>

theorem output_columns_are_fixed:
  "(compute_table_2d seg resolution = Inr t \<longrightarrow>
      df_columns t = [''label_id'', ''anchor_y'', ''anchor_x'',
                      ''bb_min_y'', ''bb_min_x'', ''bb_max_y'', ''bb_max_x'', ''n_pixels''])
   \<and> (fst (compute_table_3d engine seg_path seg_key resolution' correct_anchors tmp_folder target
              max_jobs w) = Inr t' \<longrightarrow>
      df_columns t' = [''label_id'', ''anchor_x'', ''anchor_y'', ''anchor_z'',
                       ''bb_min_x'', ''bb_min_y'', ''bb_min_z'',
                       ''bb_max_x'', ''bb_max_y'', ''bb_max_z'', ''n_pixels''])
   \<and> (ndim seg = 2 \<and> length resolution = 2 \<and> props seg \<noteq> []
        \<and> (\<forall>p\<in>set (props seg). label p < length (centers seg)) \<longrightarrow>
      (\<exists>t. compute_table_2d seg resolution = Inr t))
   \<and> (fst (engine (morphology_task seg_path seg_key tmp_folder target max_jobs) (n5 w))
        \<and> snd (engine (morphology_task seg_path seg_key tmp_folder target max_jobs) (n5 w))
              (tmp_folder @ [''data.n5''], ''attributes'') = Some attrs
        \<and> wf_array attrs \<and> 11 \<le> ncols attrs \<and> length resolution' = 3 \<and> \<not> correct_anchors \<longrightarrow>
      (\<exists>t. fst (compute_table_3d engine seg_path seg_key resolution' correct_anchors tmp_folder target
                   max_jobs w) = Inr t))"
proof (intro conjI impI)
  assume "compute_table_2d seg resolution = Inr t"
  then show "df_columns t = [''label_id'', ''anchor_y'', ''anchor_x'',
                      ''bb_min_y'', ''bb_min_x'', ''bb_max_y'', ''bb_max_x'', ''n_pixels'']"
    by (auto simp add: compute_table_2d_eq col_names_2d_def split: if_splits)
next
  assume "fst (compute_table_3d engine seg_path seg_key resolution' correct_anchors tmp_folder target
              max_jobs w) = Inr t'"
  then have "df_columns t' = col_names_3d"
    by (rule compute_table_3d_columns)
  then show "df_columns t' = [''label_id'', ''anchor_x'', ''anchor_y'', ''anchor_z'',
                       ''bb_min_x'', ''bb_min_y'', ''bb_min_z'',
                       ''bb_max_x'', ''bb_max_y'', ''bb_max_z'', ''n_pixels'']"
    by (simp add: col_names_3d_def)
next
  assume "ndim seg = 2 \<and> length resolution = 2 \<and> props seg \<noteq> []
        \<and> (\<forall>p\<in>set (props seg). label p < length (centers seg))"
  then show "\<exists>t. compute_table_2d seg resolution = Inr t"
    by (auto simp add: compute_table_2d_eq not_le)
next
  assume a: "fst (engine (morphology_task seg_path seg_key tmp_folder target max_jobs) (n5 w))
        \<and> snd (engine (morphology_task seg_path seg_key tmp_folder target max_jobs) (n5 w))
              (tmp_folder @ [''data.n5''], ''attributes'') = Some attrs
        \<and> wf_array attrs \<and> 11 \<le> ncols attrs \<and> length resolution' = 3 \<and> \<not> correct_anchors"
  then show "\<exists>t. fst (compute_table_3d engine seg_path seg_key resolution' correct_anchors tmp_folder
                   target max_jobs w) = Inr t"
    by (simp add: compute_table_3d_eq Let_def n5_to_pandas_none remove_background_3d)
qed

theorem output_columns_are_fixed_witness:
  "(\<exists>t. compute_table_2d example_seg_2d [1, 1] = Inr t
        \<and> df_columns t = [''label_id'', ''anchor_y'', ''anchor_x'',
                          ''bb_min_y'', ''bb_min_x'', ''bb_max_y'', ''bb_max_x'', ''n_pixels''])
   \<and> (\<exists>t. fst (compute_table_3d example_engine [''seg.n5''] ''seg'' [5, 3, 2] False [''tmp'']
                  ''local'' 8 example_world) = Inr t
        \<and> df_columns t = [''label_id'', ''anchor_x'', ''anchor_y'', ''anchor_z'',
                       ''bb_min_x'', ''bb_min_y'', ''bb_min_z'',
                       ''bb_max_x'', ''bb_max_y'', ''bb_max_z'', ''n_pixels''])"
proof -
  note T = output_columns_are_fixed [where seg = example_seg_2d and resolution = "[1, 1]"
      and engine = example_engine and seg_path = "[''seg.n5'']" and seg_key = "''seg''"
      and resolution' = "[5, 3, 2]" and correct_anchors = False and tmp_folder = "[''tmp'']"
      and target = "''local''" and max_jobs = 8 and w = example_world
      and attrs = example_attributes]
  have h2: "ndim example_seg_2d = 2 \<and> length [1, 1 :: rat] = 2 \<and> props example_seg_2d \<noteq> []
        \<and> (\<forall>p\<in>set (props example_seg_2d). label p < length (centers example_seg_2d))"
    by (simp add: example_seg_2d_def)
  have h3: "fst (example_engine (morphology_task [''seg.n5''] ''seg'' [''tmp''] ''local'' 8) (n5 example_world))
        \<and> snd (example_engine (morphology_task [''seg.n5''] ''seg'' [''tmp''] ''local'' 8) (n5 example_world))
              ([''tmp''] @ [''data.n5''], ''attributes'') = Some example_attributes
        \<and> wf_array example_attributes \<and> 11 \<le> ncols example_attributes
        \<and> length [5, 3, 2 :: rat] = 3 \<and> \<not> False"
    by (simp add: example_engine_def morphology_task_def example_attributes_def wf_array_def)
  from T h2 obtain t where t: "compute_table_2d example_seg_2d [1, 1] = Inr t"
    by blast
  from T h3 obtain t' where t': "fst (compute_table_3d example_engine [''seg.n5''] ''seg'' [5, 3, 2]
      False [''tmp''] ''local'' 8 example_world) = Inr t'"
    by blast
  from t output_columns_are_fixed [where seg = example_seg_2d and resolution = "[1, 1]" and t = t]
  have c2: "df_columns t = [''label_id'', ''anchor_y'', ''anchor_x'',
                          ''bb_min_y'', ''bb_min_x'', ''bb_max_y'', ''bb_max_x'', ''n_pixels'']"
    by blast
  from t' output_columns_are_fixed [where engine = example_engine and seg_path = "[''seg.n5'']"
      and seg_key = "''seg''" and resolution' = "[5, 3, 2]" and correct_anchors = False
      and tmp_folder = "[''tmp'']" and target = "''local''" and max_jobs = 8 and w = example_world
      and t' = t']
  have c3: "df_columns t' = [''label_id'', ''anchor_x'', ''anchor_y'', ''anchor_z'',
                       ''bb_min_x'', ''bb_min_y'', ''bb_min_z'',
                       ''bb_max_x'', ''bb_max_y'', ''bb_max_z'', ''n_pixels'']"
    by blast
  from t c2 t' c3 show ?thesis
    by blast
qed


section \<open>A resolution of the wrong length on the 3D path\<close>

text \<open>
  C8 does not hold of the code. The 2D extractor asserts that the resolution has as many
  values as the segmentation has dimensions; the 3D path has no such check, and the
  translator indexes the reversed resolution by \<open>0, 1, 2\<close>. With four resolution
  values \<open>[5, 3, 2, 7]\<close> nothing fails: the table is produced, with x, y and z scaled by
  \<open>7, 2, 3\<close>, the last three values.
\<close>

theorem width_mismatch_goes_unnoticed:
  "fst (n5_to_pandas [''tmp'', ''data.n5''] ''attributes'' [5, 3, 2, 7] None attribute_world)
     = Inr \<lparr>df_columns = col_names_3d,
            df_rows = [(1, [Some 1, Some 21, Some 4, Some 3, Some 14, Some 2, Some 0,
                            Some 42, Some 10, Some 12, Some 16]),
                       (2, [Some 2, Some 0, Some 0, Some 0, Some 0, Some 0, Some 0,
                            Some 0, Some 0, Some 0, Some 0])]\<rparr>
   \<and> fst (translate_coordinate_tuple (rev [5, 3, 2, 7]) com_view store_3d) = Inr (rev_cols com_view)"
proof -
  have "n5 attribute_world ([''tmp'', ''data.n5''], ''attributes'') = Some example_attributes"
    "wf_array example_attributes" "11 \<le> ncols example_attributes" "3 \<le> length [5, 3, 2, 7 :: rat]"
    by (simp_all add: attribute_world_def example_world_def example_attributes_def wf_array_def)
  then have "fst (n5_to_pandas [''tmp'', ''data.n5''] ''attributes'' [5, 3, 2, 7] None attribute_world)
      = remove_background_label_row
          \<lparr>df_columns = col_names_3d, df_rows = enumerate 0 (rows_3d [5, 3, 2, 7] example_attributes)\<rparr>"
    by (rule n5_to_pandas_none)
  moreover have "rows_3d [5, 3, 2, 7] example_attributes
      = [[Some 0, Some 21, Some 4, Some 3, Some 0, Some 0, Some 0, Some 63, Some 18, Some 27, Some 100],
         [Some 1, Some 21, Some 4, Some 3, Some 14, Some 2, Some 0, Some 42, Some 10, Some 12, Some 16],
         [Some 2, Some 0, Some 0, Some 0, Some 0, Some 0, Some 0, Some 0, Some 0, Some 0, Some 0]]"
    by (simp add: rows_3d_def example_attributes_def table_row_3d_def translated_def vmul_def)
  moreover have "fst (translate_coordinate_tuple (rev [5, 3, 2, 7]) com_view store_3d)
      = Inr (rev_cols com_view)"
    by (simp add: translate_coordinate_tuple_def rev_cols_def com_view_def Let_def)
  ultimately show ?thesis
    by (simp add: remove_background_3d)
qed

section \<open>The rows of the final table\<close>

lemma translate_fails:
  "length (cols v) < 3 \<or> length res < 3 \<Longrightarrow>
     fst (translate_coordinate_tuple res v s) = Inl IndexError"
  by (auto simp add: translate_coordinate_tuple_def rev_cols_def Let_def split: prod.splits option.splits)

lemma translate_Inr_D:
  "translate_coordinate_tuple res v s = (Inr v', s') \<Longrightarrow> 3 \<le> length (cols v) \<and> 3 \<le> length res"
  using translate_fails [of v res s] by (cases "length (cols v) < 3 \<or> length res < 3") auto

lemma n5_to_pandas_Inr_D:
  assumes "fst (n5_to_pandas p k res None w) = Inr df"
  shows "\<exists>attrs. n5 w (p, k) = Some attrs \<and> 11 \<le> ncols attrs \<and> 3 \<le> length res"
proof -
  from assms obtain attrs where a: "n5 w (p, k) = Some attrs"
    by (cases "n5 w (p, k)") (simp_all add: n5_to_pandas_def)
  define s1 :: store where "s1 = (\<lambda>_. no_array)(ATTRIBUTES := attrs)"
  from assms a obtain v s s' where
    "translate_coordinate_tuple (rev res) (slice_cols 8 11 (whole s1 ATTRIBUTES)) s = (Inr v, s')"
    by (auto simp add: n5_to_pandas_def Let_def s1_def split: prod.splits sum.splits)
  then have "3 \<le> length (cols (slice_cols 8 11 (whole s1 ATTRIBUTES)))" and "3 \<le> length (rev res)"
    by (auto dest: translate_Inr_D)
  then have "11 \<le> ncols attrs" and "3 \<le> length res"
    by (simp_all add: slice_cols_def whole_def s1_def)
  with a show ?thesis by simp
qed


lemma index_of_columns:
  "index_of ''label_id'' col_names_2d = Some 0" "index_of ''n_pixels'' col_names_2d = Some 7"
  "index_of ''label_id'' col_names_3d = Some 0" "index_of ''n_pixels'' col_names_3d = Some 10"
  by (simp_all add: col_names_2d_def col_names_3d_def eval_nat_numeral)

lemma remove_empty_2d:
  "remove_empty_columns \<lparr>df_columns = col_names_2d, df_rows = X\<rparr>
     = Inr \<lparr>df_columns = col_names_2d, df_rows = filter (\<lambda>(k, r). r ! 7 \<noteq> Some 0) X\<rparr>"
  by (simp add: remove_empty_columns_def index_of_columns)

lemma remove_empty_3d:
  "remove_empty_columns \<lparr>df_columns = col_names_3d, df_rows = X\<rparr>
     = Inr \<lparr>df_columns = col_names_3d, df_rows = filter (\<lambda>(k, r). r ! 10 \<noteq> Some 0) X\<rparr>"
  by (simp add: remove_empty_columns_def index_of_columns)

lemma column_2d:
  "column ''label_id'' \<lparr>df_columns = col_names_2d, df_rows = X\<rparr> = map (\<lambda>(k, r). r ! 0) X"
  "column ''n_pixels'' \<lparr>df_columns = col_names_2d, df_rows = X\<rparr> = map (\<lambda>(k, r). r ! 7) X"
  by (simp_all add: column_def index_of_columns)

lemma column_3d:
  "column ''label_id'' \<lparr>df_columns = col_names_3d, df_rows = X\<rparr> = map (\<lambda>(k, r). r ! 0) X"
  "column ''n_pixels'' \<lparr>df_columns = col_names_3d, df_rows = X\<rparr> = map (\<lambda>(k, r). r ! 10) X"
  by (simp_all add: column_def index_of_columns)

lemma map_cell_enumerate: "map (\<lambda>(k, r). f r) (enumerate n xs) = map f xs"
  by (induction xs arbitrary: n) simp_all

lemma table_row_2d_label: "table_row_2d ce res p ! 0 = Some (of_nat (label p))"
  by (simp add: table_row_2d_def)

lemma final_table_2d:
  assumes "compute_table_2d seg resolution = Inr t" and "remove_empty_columns t = Inr t2"
    and "distinct (map label (props seg))"
  shows "distinct (column ''label_id'' t2)" and "Some 0 \<notin> set (column ''n_pixels'' t2)"
    and "0 \<notin> label ` set (props seg) \<Longrightarrow> Some 0 \<notin> set (column ''label_id'' t2)"
proof -
  let ?rows = "map (\<lambda>p. table_row_2d (centers seg ! label p) resolution p) (props seg)"
  from assms(1) have t: "t = \<lparr>df_columns = col_names_2d, df_rows = enumerate 0 ?rows\<rparr>"
    by (auto simp add: compute_table_2d_eq split: if_splits)
  with assms(2) have t2: "t2 = \<lparr>df_columns = col_names_2d,
      df_rows = filter (\<lambda>(k, r). r ! 7 \<noteq> Some 0) (enumerate 0 ?rows)\<rparr>"
    by (simp add: remove_empty_2d)
  have labels: "map (\<lambda>(k, r). r ! 0) (enumerate 0 ?rows) = map (\<lambda>p. Some (of_nat (label p))) (props seg)"
    by (simp add: map_cell_enumerate comp_def table_row_2d_label)
  have "distinct (map (\<lambda>p. Some (of_nat (label p) :: rat)) (props seg))"
    using assms(3) by (simp add: distinct_map inj_on_def)
  then have "distinct (map (\<lambda>(k, r). r ! 0) (enumerate 0 ?rows))"
    by (simp only: labels)
  then show "distinct (column ''label_id'' t2)"
    unfolding t2 column_2d by (rule distinct_map_filter)
  show "Some 0 \<notin> set (column ''n_pixels'' t2)"
    unfolding t2 column_2d by auto
  have "set (column ''label_id'' t2) \<subseteq> set (map (\<lambda>(k, r). r ! 0) (enumerate 0 ?rows))"
    unfolding t2 column_2d by auto
  moreover assume "0 \<notin> label ` set (props seg)"
  ultimately show "Some 0 \<notin> set (column ''label_id'' t2)"
    unfolding labels by auto
qed

lemma final_table_3d:
  assumes "fst (compute_table_3d engine seg_path seg_key resolution correct_anchors tmp_folder
                  target max_jobs w) = Inr t"
    and "remove_empty_columns t = Inr t3"
    and "snd (engine (morphology_task seg_path seg_key tmp_folder target max_jobs) (n5 w))
           (tmp_folder @ [''data.n5''], ''attributes'') = Some attrs"
    and "wf_array attrs" and "distinct (map (\<lambda>r. r ! 0) (rws attrs))"
  shows "distinct (column ''label_id'' t3)" and "Some 0 \<notin> set (column ''n_pixels'' t3)"
    and "Some 0 \<notin> set (column ''label_id'' t3)"
proof -
  let ?w2 = "w\<lparr>configs := configs w @ [tmp_folder @ [''configs'']],
                runs := runs w @ [morphology_task seg_path seg_key tmp_folder target max_jobs],
                n5 := snd (engine (morphology_task seg_path seg_key tmp_folder target max_jobs) (n5 w))\<rparr>"
  from assms(1) have n: "fst (n5_to_pandas (tmp_folder @ [''data.n5'']) ''attributes'' resolution None ?w2) = Inr t"
    by (auto simp add: compute_table_3d_eq Let_def split: if_splits)
  from n5_to_pandas_Inr_D [OF this] assms(3) have shape: "11 \<le> ncols attrs" "3 \<le> length resolution"
    by simp_all
  have "n5 ?w2 (tmp_folder @ [''data.n5''], ''attributes'') = Some attrs"
    using assms(3) by simp
  from n5_to_pandas_none [OF this assms(4) shape] n
  have t: "t = \<lparr>df_columns = col_names_3d,
      df_rows = filter (\<lambda>(k, r). r ! 0 \<noteq> Some 0) (enumerate 0 (rows_3d resolution attrs))\<rparr>"
    by (simp add: remove_background_3d)
  with assms(2) have t3: "t3 = \<lparr>df_columns = col_names_3d,
      df_rows = filter (\<lambda>(k, r). r ! 10 \<noteq> Some 0)
                  (filter (\<lambda>(k, r). r ! 0 \<noteq> Some 0) (enumerate 0 (rows_3d resolution attrs)))\<rparr>"
    by (simp add: remove_empty_3d)
  have "table_row_3d (rev resolution) (take 3 (drop 2 r)) r ! 0 = r ! 0" if "r \<in> set (rws attrs)" for r
  proof -
    from that assms(4) shape(1) have "11 \<le> length r"
      by (auto simp add: wf_array_def list_all_iff)
    then show ?thesis
      using shape(2) by (intro table_row_3d_cells) simp_all
  qed
  then have labels: "map (\<lambda>(k, r). r ! 0) (enumerate 0 (rows_3d resolution attrs))
      = map (\<lambda>r. r ! 0) (rws attrs)"
    by (simp add: map_cell_enumerate rows_3d_def comp_def)
  with assms(5) have "distinct (map (\<lambda>(k, r). r ! 0) (enumerate 0 (rows_3d resolution attrs)))"
    by simp
  then have "distinct (map (\<lambda>(k, r). r ! 0)
      (filter (\<lambda>(k, r). r ! 0 \<noteq> Some 0) (enumerate 0 (rows_3d resolution attrs))))"
    by (rule distinct_map_filter)
  then show "distinct (column ''label_id'' t3)"
    unfolding t3 column_3d by (rule distinct_map_filter)
  show "Some 0 \<notin> set (column ''n_pixels'' t3)"
    unfolding t3 column_3d by auto
  show "Some 0 \<notin> set (column ''label_id'' t3)"
    unfolding t3 column_3d by auto
qed


text \<open>
  C3. The final table is what \<^verbatim>\<open>_remove_empty_columns\<close> leaves of the table of the
  extractor. On the 2D path, when \<^verbatim>\<open>regionprops\<close> reports every label once, no label
  occurs twice in the final table and no row has \<open>n_pixels\<close> equal to 0; there is no
  row for label 0 when \<^verbatim>\<open>regionprops\<close> reports none (it never reports the
  background). On the 3D path, when the workflow leaves a well-formed attribute array
  with every label once, no label occurs twice in the final table, no row has
  \<open>n_pixels\<close> equal to 0, and there is no row for label 0.
\<close>

theorem final_table_invariant:
  "(compute_table_2d seg resolution = Inr t \<and> remove_empty_columns t = Inr t2
      \<and> distinct (map label (props seg)) \<longrightarrow>
        distinct (column ''label_id'' t2) \<and> Some 0 \<notin> set (column ''n_pixels'' t2)
        \<and> (0 \<notin> label ` set (props seg) \<longrightarrow> Some 0 \<notin> set (column ''label_id'' t2)))
   \<and> (fst (compute_table_3d engine seg_path seg_key resolution' correct_anchors tmp_folder target
              max_jobs w) = Inr t'
      \<and> remove_empty_columns t' = Inr t3
      \<and> snd (engine (morphology_task seg_path seg_key tmp_folder target max_jobs) (n5 w))
            (tmp_folder @ [''data.n5''], ''attributes'') = Some attrs
      \<and> wf_array attrs \<and> distinct (map (\<lambda>r. r ! 0) (rws attrs)) \<longrightarrow>
        distinct (column ''label_id'' t3) \<and> Some 0 \<notin> set (column ''n_pixels'' t3)
        \<and> Some 0 \<notin> set (column ''label_id'' t3))"
  using final_table_2d [of seg resolution t t2]
    final_table_3d [of engine seg_path seg_key resolution' correct_anchors tmp_folder target
      max_jobs w t' t3 attrs]
  by blast

theorem final_table_invariant_witness:
  "(\<exists>t t2. compute_table_2d example_seg_2d [1, 1] = Inr t \<and> remove_empty_columns t = Inr t2
      \<and> column ''label_id'' t2 = [Some 1]
      \<and> distinct (column ''label_id'' t2) \<and> Some 0 \<notin> set (column ''n_pixels'' t2)
      \<and> Some 0 \<notin> set (column ''label_id'' t2))
   \<and> (\<exists>t' t3. fst (compute_table_3d example_engine [''seg.n5''] ''seg'' [5, 3, 2] False [''tmp'']
                     ''local'' 8 example_world) = Inr t'
      \<and> remove_empty_columns t' = Inr t3
      \<and> column ''label_id'' t3 = [Some 1]
      \<and> distinct (column ''label_id'' t3) \<and> Some 0 \<notin> set (column ''n_pixels'' t3)
      \<and> Some 0 \<notin> set (column ''label_id'' t3))"
proof -
  let ?t = "\<lparr>df_columns = col_names_2d,
             df_rows = [(0, [Some 1, Some 2, Some 2, Some 0, Some 0, Some 4, Some 4, Some 16])]\<rparr>"
  let ?t' = "\<lparr>df_columns = col_names_3d,
              df_rows = [(1, [Some 1, Some 6, Some 6, Some 5, Some 4, Some 3, Some 0,
                              Some 12, Some 15, Some 20, Some 16]),
                         (2, [Some 2, Some 0, Some 0, Some 0, Some 0, Some 0, Some 0,
                              Some 0, Some 0, Some 0, Some 0])]\<rparr>"
  let ?t3 = "\<lparr>df_columns = col_names_3d,
              df_rows = [(1, [Some 1, Some 6, Some 6, Some 5, Some 4, Some 3, Some 0,
                              Some 12, Some 15, Some 20, Some 16])]\<rparr>"
  let ?task = "morphology_task [''seg.n5''] ''seg'' [''tmp''] ''local'' 8"
  have a: "compute_table_2d example_seg_2d [1, 1] = Inr ?t"
    by (simp add: compute_table_2d_eq example_seg_2d_def table_row_2d_def scaled_def bbox_list_def)
  have b: "remove_empty_columns ?t = Inr ?t"
    by (simp add: remove_empty_2d)
  have c: "distinct (map label (props example_seg_2d))" "0 \<notin> label ` set (props example_seg_2d)"
    by (simp_all add: example_seg_2d_def)
  have e: "fst (example_engine ?task (n5 example_world))"
    "snd (example_engine ?task (n5 example_world)) ([''tmp''] @ [''data.n5''], ''attributes'')
       = Some example_attributes"
    "wf_array example_attributes" "distinct (map (\<lambda>r. r ! 0) (rws example_attributes))"
    by (simp_all add: example_engine_def morphology_task_def example_attributes_def wf_array_def)
  have rows: "rows_3d [5, 3, 2] example_attributes
      = [[Some 0, Some 6, Some 6, Some 5, Some 0, Some 0, Some 0, Some 18, Some 27, Some 45, Some 100],
         [Some 1, Some 6, Some 6, Some 5, Some 4, Some 3, Some 0, Some 12, Some 15, Some 20, Some 16],
         [Some 2, Some 0, Some 0, Some 0, Some 0, Some 0, Some 0, Some 0, Some 0, Some 0, Some 0]]"
    by (simp add: rows_3d_def example_attributes_def table_row_3d_def translated_def vmul_def)
  have a': "fst (compute_table_3d example_engine [''seg.n5''] ''seg'' [5, 3, 2] False [''tmp'']
                   ''local'' 8 example_world) = Inr ?t'"
  proof -
    have "11 \<le> ncols example_attributes" "3 \<le> length [5, 3, 2 :: rat]"
      by (simp_all add: example_attributes_def)
    with e show ?thesis
      by (simp add: compute_table_3d_eq Let_def n5_to_pandas_none remove_background_3d rows)
  qed
  have b': "remove_empty_columns ?t' = Inr ?t3"
    by (simp add: remove_empty_3d)
  from final_table_invariant [where seg = example_seg_2d and resolution = "[1, 1]" and t = ?t
      and ?t2.0 = ?t and engine = example_engine and seg_path = "[''seg.n5'']" and seg_key = "''seg''"
      and resolution' = "[5, 3, 2]" and correct_anchors = False and tmp_folder = "[''tmp'']"
      and target = "''local''" and max_jobs = 8 and w = example_world and t' = ?t' and ?t3.0 = ?t3
      and attrs = example_attributes] a b c a' b' e
  have "distinct (column ''label_id'' ?t) \<and> Some 0 \<notin> set (column ''n_pixels'' ?t)
        \<and> Some 0 \<notin> set (column ''label_id'' ?t)"
    and "distinct (column ''label_id'' ?t3) \<and> Some 0 \<notin> set (column ''n_pixels'' ?t3)
        \<and> Some 0 \<notin> set (column ''label_id'' ?t3)"
    by blast+
  moreover have "column ''label_id'' ?t = [Some 1]" "column ''label_id'' ?t3 = [Some 1]"
    by (simp_all add: column_2d column_3d)
  ultimately show ?thesis
    using a b a' b' by blast
qed

section \<open>Assembling and writing the table\<close>

lemma mkdirs_ok:
  "\<forall>q\<in>set qs. files w q = None \<Longrightarrow> mkdirs qs w = (None, w\<lparr>dirs := dirs w \<union> set qs\<rparr>)"
proof (induction qs arbitrary: w)
  case Nil
  then show ?case by simp
next
  case (Cons q qs)
  then have "mkdirs qs (w\<lparr>dirs := insert q (dirs w)\<rparr>)
      = (None, w\<lparr>dirs := insert q (dirs w)\<rparr>\<lparr>dirs := dirs (w\<lparr>dirs := insert q (dirs w)\<rparr>) \<union> set qs\<rparr>)"
    by (intro Cons.IH) simp
  with Cons.prems show ?case by simp
qed

lemma ancestors_shorter: "q \<in> set (ancestors_and_self p) \<Longrightarrow> length q \<le> length p"
  by (auto simp add: ancestors_and_self_def)

lemma self_in_ancestors: "p \<noteq> [] \<Longrightarrow> p \<in> set (ancestors_and_self p)"
  by (cases p) (auto simp add: ancestors_and_self_def image_iff intro!: bexI [of _ "length p"])

lemma os_makedirs_ok:
  assumes "name \<noteq> []" and "\<forall>q\<in>set (ancestors_and_self name). files w q = None"
  shows "os_makedirs name w = (None, w\<lparr>dirs := dirs w \<union> set (ancestors_and_self name)\<rparr>)"
  using assms by (simp add: os_makedirs_def mkdirs_ok)

lemma extraction_keeps_files:
  "dirs (snd (compute_table_3d engine seg_path seg_key resolution correct_anchors tmp_folder target
                max_jobs w)) = dirs w"
  "files (snd (compute_table_3d engine seg_path seg_key resolution correct_anchors tmp_folder target
                 max_jobs w)) = files w"
  by (simp_all add: compute_table_3d_eq Let_def)

lemma extracted_has_n_pixels:
  assumes "(ndim seg = 2 \<and> compute_table_2d seg resolution = Inr table)
         \<or> (ndim seg \<noteq> 2 \<and> fst (compute_table_3d engine seg_path seg_key resolution correct_anchors
                                   tmp_folder target max_jobs w) = Inr table)"
  shows "\<exists>i. index_of ''n_pixels'' (df_columns table) = Some i"
proof -
  from assms have "df_columns table = col_names_2d \<or> df_columns table = col_names_3d"
    by (auto simp add: compute_table_2d_eq compute_table_3d_columns split: if_splits)
  then show ?thesis
    by (auto simp add: index_of_columns)
qed


lemma assemble_and_write:
  assumes "index_of ''n_pixels'' (df_columns table) = Some i"
    and "butlast table_path \<noteq> []"
    and "\<forall>q\<in>set (ancestors_and_self (butlast table_path)). files w1 q = None"
    and "table_path \<notin> dirs w1"
  shows "(case remove_empty_columns table of
            Inl e \<Rightarrow> (Some e, w1)
          | Inr table' \<Rightarrow>
              let table_folder = butlast table_path in
              (case os_makedirs table_folder w1 of
                 (Some e, w2) \<Rightarrow> (Some e, w2)
               | (None, w2) \<Rightarrow> to_csv table' table_path [CHR 0x09] False ''nan'' fmt w2))
         = (None, w1\<lparr>dirs := dirs w1 \<union> set (ancestors_and_self (butlast table_path)),
                      files := (files w1)(table_path \<mapsto>
                        concat (map (\<lambda>cs. join [CHR 0x09] cs @ [CHR 0x0A])
                          (df_columns table #
                           map (\<lambda>(k, r). map (\<lambda>v. case v of None \<Rightarrow> ''nan'' | Some x \<Rightarrow> fmt x) r)
                             (filter (\<lambda>(k, r). r ! i \<noteq> Some 0) (df_rows table)))))\<rparr>)"
proof -
  have ne: "table_path \<noteq> []"
    using assms(2) by auto
  have "length q < length table_path" if "q \<in> set (ancestors_and_self (butlast table_path))" for q
  proof -
    have "length (butlast table_path) < length table_path"
      using ne by simp
    with ancestors_shorter [OF that] show ?thesis
      by (rule le_less_trans)
  qed
  then have 1: "table_path \<notin> set (ancestors_and_self (butlast table_path))"
    by auto
  have 2: "butlast table_path \<in> set (ancestors_and_self (butlast table_path))"
    using assms(2) by (rule self_in_ancestors)
  show ?thesis
    using assms 1 2 ne
    by (simp add: remove_empty_columns_def os_makedirs_ok to_csv_def Let_def comp_def split_def)
qed

text \<open>
  The run that writes. Take any table that an extractor returns, a destination with a
  folder part, no file in the place of that folder or of one of its ancestors, and no
  folder in the place of the destination. Then the run ends without an error; the folder
  and all its ancestors exist afterwards; and the destination holds: the line of the
  column names, then one line for every row whose \<open>n_pixels\<close> is not 0 and no line for
  any other row, the cells of a line joined by tabs and no cell for the index, every
  line ended by a newline, a NaN cell written \<open>nan\<close>.
\<close>

lemma folder_destination_is_written:
  assumes "segs w (seg_path, seg_key) = Some seg"
    and "(ndim seg = 2 \<and> compute_table_2d seg resolution = Inr table)
         \<or> (ndim seg \<noteq> 2 \<and> fst (compute_table_3d engine seg_path seg_key resolution correct_anchors
                                   tmp_folder target max_jobs w) = Inr table)"
    and "butlast table_path \<noteq> []"
    and "\<forall>q\<in>set (ancestors_and_self (butlast table_path)). files w q = None"
    and "table_path \<notin> dirs w"
  shows "\<exists>i. index_of ''n_pixels'' (df_columns table) = Some i
       \<and> fst (compute_default_table engine fmt seg_path seg_key table_path resolution tmp_folder
                target max_jobs correct_anchors w) = None
       \<and> dirs (snd (compute_default_table engine fmt seg_path seg_key table_path resolution
                       tmp_folder target max_jobs correct_anchors w))
           = dirs w \<union> set (ancestors_and_self (butlast table_path))
       \<and> files (snd (compute_default_table engine fmt seg_path seg_key table_path resolution
                        tmp_folder target max_jobs correct_anchors w))
           = (files w)(table_path \<mapsto>
                concat (map (\<lambda>cs. join [CHR 0x09] cs @ [CHR 0x0A])
                  (df_columns table #
                   map (\<lambda>(k, r). map (\<lambda>v. case v of None \<Rightarrow> ''nan'' | Some x \<Rightarrow> fmt x) r)
                     (filter (\<lambda>(k, r). r ! i \<noteq> Some 0) (df_rows table)))))"
proof -
  from extracted_has_n_pixels [OF assms(2)] obtain i
    where i: "index_of ''n_pixels'' (df_columns table) = Some i" ..
  define w1 where "w1 = (if ndim seg = 2 then w
     else snd (compute_table_3d engine seg_path seg_key resolution correct_anchors tmp_folder target
                 max_jobs w))"
  have fs: "dirs w1 = dirs w" "files w1 = files w"
    by (simp_all add: w1_def extraction_keeps_files)
  have ex: "(if ndim seg = 2 then (compute_table_2d seg resolution, w)
             else compute_table_3d engine seg_path seg_key resolution correct_anchors tmp_folder
                    target max_jobs w) = (Inr table, w1)"
    using assms(2) by (auto simp add: w1_def prod_eq_iff)
  have "compute_default_table engine fmt seg_path seg_key table_path resolution tmp_folder target
          max_jobs correct_anchors w
        = (None, w1\<lparr>dirs := dirs w1 \<union> set (ancestors_and_self (butlast table_path)),
                     files := (files w1)(table_path \<mapsto>
                        concat (map (\<lambda>cs. join [CHR 0x09] cs @ [CHR 0x0A])
                          (df_columns table #
                           map (\<lambda>(k, r). map (\<lambda>v. case v of None \<Rightarrow> ''nan'' | Some x \<Rightarrow> fmt x) r)
                             (filter (\<lambda>(k, r). r ! i \<noteq> Some 0) (df_rows table)))))\<rparr>)"
    unfolding compute_default_table_def assms(1) option.case ex prod.case sum.case
    using i assms(3,4,5) by (intro assemble_and_write) (simp_all add: fs)
  with i show ?thesis
    by (simp add: fs)
qed


lemma folder_destination_is_written_with_nan:
  "fst (compute_default_table nan_engine print_example [''seg.n5''] ''seg''
          [''out'', ''tables'', ''default.tsv''] [5, 3, 2] [''tmp''] ''local'' 8 False example_world)
     = None
   \<and> dirs (snd (compute_default_table nan_engine print_example [''seg.n5''] ''seg''
          [''out'', ''tables'', ''default.tsv''] [5, 3, 2] [''tmp''] ''local'' 8 False example_world))
     = {[''out''], [''out'', ''tables'']}
   \<and> files (snd (compute_default_table nan_engine print_example [''seg.n5''] ''seg''
          [''out'', ''tables'', ''default.tsv''] [5, 3, 2] [''tmp''] ''local'' 8 False example_world))
        [''out'', ''tables'', ''default.tsv'']
     = Some (concat (map (\<lambda>cs. join [CHR 0x09] cs @ [CHR 0x0A])
         [[''label_id'', ''anchor_x'', ''anchor_y'', ''anchor_z'', ''bb_min_x'', ''bb_min_y'',
           ''bb_min_z'', ''bb_max_x'', ''bb_max_y'', ''bb_max_z'', ''n_pixels''],
          [''1.0'', ''6.0'', ''6.0'', ''5.0'', ''4.0'', ''3.0'', ''0.0'', ''12.0'', ''15.0'', ''20.0'',
           ''16.0''],
          [''3.0'', ''6.0'', ''6.0'', ''nan'', ''4.0'', ''3.0'', ''0.0'', ''12.0'', ''15.0'', ''20.0'',
           ''nan'']]))"
proof -
  let ?task = "morphology_task [''seg.n5''] ''seg'' [''tmp''] ''local'' 8"
  let ?t = "\<lparr>df_columns = col_names_3d,
             df_rows = [(0, [Some 1, Some 6, Some 6, Some 5, Some 4, Some 3, Some 0,
                             Some 12, Some 15, Some 20, Some 16]),
                        (1, [Some 2, Some 0, Some 0, Some 0, Some 0, Some 0, Some 0,
                             Some 0, Some 0, Some 0, Some 0]),
                        (2, [Some 3, Some 6, Some 6, None, Some 4, Some 3, Some 0,
                             Some 12, Some 15, Some 20, None])]\<rparr>"
  have rows: "rows_3d [5, 3, 2] nan_attributes
      = [[Some 1, Some 6, Some 6, Some 5, Some 4, Some 3, Some 0, Some 12, Some 15, Some 20, Some 16],
         [Some 2, Some 0, Some 0, Some 0, Some 0, Some 0, Some 0, Some 0, Some 0, Some 0, Some 0],
         [Some 3, Some 6, Some 6, None, Some 4, Some 3, Some 0, Some 12, Some 15, Some 20, None]]"
    by (simp add: rows_3d_def nan_attributes_def table_row_3d_def translated_def vmul_def)
  have e: "fst (nan_engine ?task (n5 example_world))"
    "snd (nan_engine ?task (n5 example_world)) ([''tmp''] @ [''data.n5''], ''attributes'')
       = Some nan_attributes"
    "wf_array nan_attributes" "11 \<le> ncols nan_attributes" "3 \<le> length [5, 3, 2 :: rat]"
    by (simp_all add: nan_engine_def morphology_task_def nan_attributes_def wf_array_def)
  then have t: "fst (compute_table_3d nan_engine [''seg.n5''] ''seg'' [5, 3, 2] False [''tmp'']
                   ''local'' 8 example_world) = Inr ?t"
    by (simp add: compute_table_3d_eq Let_def n5_to_pandas_none remove_background_3d rows)
  have h: "segs example_world ([''seg.n5''], ''seg'') = Some \<lparr>ndim = 3, props = [], centers = []\<rparr>"
    "butlast [''out'', ''tables'', ''default.tsv''] \<noteq> []"
    "\<forall>q\<in>set (ancestors_and_self (butlast [''out'', ''tables'', ''default.tsv''])). files example_world q = None"
    "[''out'', ''tables'', ''default.tsv''] \<notin> dirs example_world"
    by (simp_all add: example_world_def)
  from t have "(ndim \<lparr>ndim = 3, props = [], centers = []\<rparr> = 2
                  \<and> compute_table_2d \<lparr>ndim = 3, props = [], centers = []\<rparr> [5, 3, 2] = Inr ?t)
         \<or> (ndim \<lparr>ndim = 3, props = [], centers = []\<rparr> \<noteq> 2
              \<and> fst (compute_table_3d nan_engine [''seg.n5''] ''seg'' [5, 3, 2] False [''tmp'']
                   ''local'' 8 example_world) = Inr ?t)"
    by simp
  from folder_destination_is_written [OF h(1) this h(2,3,4), of print_example]
  show ?thesis
    by (simp add: index_of_columns ancestors_and_self_def upt_rec example_world_def
        print_example_def col_names_3d_def insert_commute)
qed

lemma example_table_2d:
  "compute_table_2d example_seg_2d [1, 1]
     = Inr \<lparr>df_columns = col_names_2d,
            df_rows = [(0, [Some 1, Some 2, Some 2, Some 0, Some 0, Some 4, Some 4, Some 16])]\<rparr>"
  by (simp add: compute_table_2d_eq example_seg_2d_def table_row_2d_def scaled_def bbox_list_def)

text \<open>The file of the 2D example, character by character.\<close>

lemma folder_destination_example:
  "fst (compute_default_table example_engine print_small [''seg.n5''] ''seg''
          [''out'', ''default.tsv''] [1, 1] [''tmp''] ''local'' 8 False example_world_2d) = None
   \<and> dirs (snd (compute_default_table example_engine print_small [''seg.n5''] ''seg''
          [''out'', ''default.tsv''] [1, 1] [''tmp''] ''local'' 8 False example_world_2d)) = {[''out'']}
   \<and> files (snd (compute_default_table example_engine print_small [''seg.n5''] ''seg''
          [''out'', ''default.tsv''] [1, 1] [''tmp''] ''local'' 8 False example_world_2d))
        [''out'', ''default.tsv'']
     = Some (''label_id'' @ [CHR 0x09] @ ''anchor_y'' @ [CHR 0x09] @ ''anchor_x'' @ [CHR 0x09]
             @ ''bb_min_y'' @ [CHR 0x09] @ ''bb_min_x'' @ [CHR 0x09] @ ''bb_max_y'' @ [CHR 0x09]
             @ ''bb_max_x'' @ [CHR 0x09] @ ''n_pixels'' @ [CHR 0x0A]
             @ ''1.0'' @ [CHR 0x09] @ ''2.0'' @ [CHR 0x09] @ ''2.0'' @ [CHR 0x09] @ ''0.0''
             @ [CHR 0x09] @ ''0.0'' @ [CHR 0x09] @ ''4.0'' @ [CHR 0x09] @ ''4.0'' @ [CHR 0x09]
             @ ''16.0'' @ [CHR 0x0A])"
proof -
  have h: "segs example_world_2d ([''seg.n5''], ''seg'') = Some example_seg_2d"
    "butlast [''out'', ''default.tsv''] \<noteq> []"
    "\<forall>q\<in>set (ancestors_and_self (butlast [''out'', ''default.tsv''])). files example_world_2d q = None"
    "[''out'', ''default.tsv''] \<notin> dirs example_world_2d"
    by (simp_all add: example_world_2d_def example_world_def)
  have "(ndim example_seg_2d = 2 \<and> compute_table_2d example_seg_2d [1, 1]
           = Inr \<lparr>df_columns = col_names_2d,
                  df_rows = [(0, [Some 1, Some 2, Some 2, Some 0, Some 0, Some 4, Some 4, Some 16])]\<rparr>)
      \<or> (ndim example_seg_2d \<noteq> 2 \<and> fst (compute_table_3d example_engine [''seg.n5''] ''seg'' [1, 1]
             False [''tmp''] ''local'' 8 example_world_2d)
           = Inr \<lparr>df_columns = col_names_2d,
                  df_rows = [(0, [Some 1, Some 2, Some 2, Some 0, Some 0, Some 4, Some 4, Some 16])]\<rparr>)"
    by (simp add: example_table_2d) (simp add: example_seg_2d_def)
  from folder_destination_is_written [OF h(1) this h(2,3,4), of print_small]
  show ?thesis
    by (simp add: index_of_columns ancestors_and_self_def example_world_2d_def example_world_def
        print_small_def col_names_2d_def)
qed


section \<open>A destination without a folder part\<close>

text \<open>
  \<^verbatim>\<open>os.path.split\<close> of a bare file name gives the empty folder name, and
  \<^verbatim>\<open>os.makedirs\<close> raises FileNotFoundError for it, though the working directory is
  there. So whenever an extractor returns a table and the destination has no folder
  part, the run ends with this error, and the file system is as it was.
\<close>

lemma no_folder_no_file:
  assumes "segs w (seg_path, seg_key) = Some seg"
    and "(ndim seg = 2 \<and> compute_table_2d seg resolution = Inr table)
         \<or> (ndim seg \<noteq> 2 \<and> fst (compute_table_3d engine seg_path seg_key resolution correct_anchors
                                   tmp_folder target max_jobs w) = Inr table)"
    and "butlast table_path = []"
  shows "fst (compute_default_table engine fmt seg_path seg_key table_path resolution tmp_folder
                target max_jobs correct_anchors w) = Some FileNotFoundError"
    and "files (snd (compute_default_table engine fmt seg_path seg_key table_path resolution
                       tmp_folder target max_jobs correct_anchors w)) = files w"
    and "dirs (snd (compute_default_table engine fmt seg_path seg_key table_path resolution
                      tmp_folder target max_jobs correct_anchors w)) = dirs w"
proof -
  from extracted_has_n_pixels [OF assms(2)] obtain i
    where i: "index_of ''n_pixels'' (df_columns table) = Some i" ..
  define w1 where "w1 = (if ndim seg = 2 then w
     else snd (compute_table_3d engine seg_path seg_key resolution correct_anchors tmp_folder target
                 max_jobs w))"
  have fs: "dirs w1 = dirs w" "files w1 = files w"
    by (simp_all add: w1_def extraction_keeps_files)
  have ex: "(if ndim seg = 2 then (compute_table_2d seg resolution, w)
             else compute_table_3d engine seg_path seg_key resolution correct_anchors tmp_folder
                    target max_jobs w) = (Inr table, w1)"
    using assms(2) by (auto simp add: w1_def prod_eq_iff)
  have "compute_default_table engine fmt seg_path seg_key table_path resolution tmp_folder target
          max_jobs correct_anchors w = (Some FileNotFoundError, w1)"
    unfolding compute_default_table_def assms(1) option.case ex prod.case sum.case
    using i assms(3) by (simp add: remove_empty_columns_def os_makedirs_def)
  then show "fst (compute_default_table engine fmt seg_path seg_key table_path resolution tmp_folder
                target max_jobs correct_anchors w) = Some FileNotFoundError"
    and "files (snd (compute_default_table engine fmt seg_path seg_key table_path resolution
                       tmp_folder target max_jobs correct_anchors w)) = files w"
    and "dirs (snd (compute_default_table engine fmt seg_path seg_key table_path resolution
                      tmp_folder target max_jobs correct_anchors w)) = dirs w"
    by (simp_all add: fs)
qed

text \<open>
  C9 does not hold of the code. The claim: for every candidate table the rows whose
  \<open>n_pixels\<close> is 0 are removed and the remaining rows are written to the destination,
  whose folder is created before if it does not exist. With the destination
  \<open>default.tsv\<close> the 2D extractor returns its table of one row of 16 pixels, and the
  run ends with FileNotFoundError: no file is written and no folder made.
\<close>

theorem bare_file_name_is_not_written:
  "compute_table_2d example_seg_2d [1, 1]
     = Inr \<lparr>df_columns = col_names_2d,
            df_rows = [(0, [Some 1, Some 2, Some 2, Some 0, Some 0, Some 4, Some 4, Some 16])]\<rparr>
   \<and> fst (compute_default_table example_engine print_small [''seg.n5''] ''seg'' [''default.tsv'']
            [1, 1] [''tmp''] ''local'' 8 False example_world_2d) = Some FileNotFoundError
   \<and> files (snd (compute_default_table example_engine print_small [''seg.n5''] ''seg''
            [''default.tsv''] [1, 1] [''tmp''] ''local'' 8 False example_world_2d)) [''default.tsv'']
       = None
   \<and> dirs (snd (compute_default_table example_engine print_small [''seg.n5''] ''seg''
            [''default.tsv''] [1, 1] [''tmp''] ''local'' 8 False example_world_2d)) = {}"
proof -
  have s: "segs example_world_2d ([''seg.n5''], ''seg'') = Some example_seg_2d"
    by (simp add: example_world_2d_def)
  have "(ndim example_seg_2d = 2 \<and> compute_table_2d example_seg_2d [1, 1]
           = Inr \<lparr>df_columns = col_names_2d,
                  df_rows = [(0, [Some 1, Some 2, Some 2, Some 0, Some 0, Some 4, Some 4, Some 16])]\<rparr>)
      \<or> (ndim example_seg_2d \<noteq> 2 \<and> fst (compute_table_3d example_engine [''seg.n5''] ''seg'' [1, 1]
             False [''tmp''] ''local'' 8 example_world_2d)
           = Inr \<lparr>df_columns = col_names_2d,
                  df_rows = [(0, [Some 1, Some 2, Some 2, Some 0, Some 0, Some 4, Some 4, Some 16])]\<rparr>)"
    by (simp add: example_table_2d) (simp add: example_seg_2d_def)
  from no_folder_no_file [OF s this, of "[''default.tsv'']" print_small] example_table_2d
  show ?thesis
    by (simp add: example_world_2d_def example_world_def)
qed

text \<open>
  A 2D segmentation without any region ends in an error as well: the array of rows has
  one dimension only.
\<close>

lemma segmentation_without_region:
  assumes "ndim seg = 2" and "length resolution = 2" and "props seg = []"
  shows "compute_table_2d seg resolution = Inl IndexError"
  using assms by (simp add: compute_table_2d_eq)

end
